theory Spec2Isabelle
  imports Main
begin

section \<open>Input coercion of graphql-js: \<open>src/utilities/coerceInputValue.js\<close>\<close>

text \<open>
  The development embeds \<open>coerceInputValue\<close>, \<open>defaultOnError\<close> and
  \<open>coerceInputValueImpl\<close> as HOL functions and proves the properties of the
  specification about them.

  Modelling decisions, all of them visible in the definitions below:
  \<^item> A JavaScript value is \<open>undefined\<close>, \<open>null\<close>, a boolean, a number (an integer
    here; no claim looks inside a number), a string, a function, an array or an object.
    An object is given by what a read and \<open>Object.keys\<close> find: its own enumerable
    properties, in \<open>Object.keys\<close> order, and its other readable properties, which are
    the members it inherits through its prototype chain and its own properties that are
    not enumerable. An array is given by its elements, a hole being no element, and
    its other readable properties. Properties hold data: reading one neither raises nor
    has an effect (no accessor of the caller's, no proxy).
  \<^item> A GraphQL input type is a finite tree. A recursive input-object type is covered
    by its unfolding: a coercion never descends deeper into the type than the input
    value is deep.
  \<^item> The state of a coercion is a pair: what the \<open>onError\<close> callback keeps, and the
    state that the \<open>parseValue\<close> functions of the scalar types read and change. A call
    of \<open>parseValue\<close> takes the second component and returns its outcome with the new
    one; the callback takes the pair and either raises (\<open>Inl\<close>) or returns the new pair
    (\<open>Inr\<close>), so it may change both.
  \<^item> A raise unwinds the whole coercion, as in the source: the raise of the callback
    and the error that the conversion \<open>String(inputValue)\<close> may throw. The values raised
    are of one type, a parameter.
  \<^item> A \<open>return;\<close> of the source returns \<open>undefined\<close>, the ``absent'' result of the
    specification.
  \<^item> What the source takes from its runtime and from other modules is a parameter,
    collected in the record \<open>env\<close>: the helpers \<open>inspect\<close>, \<open>printPathArray\<close>,
    \<open>isObjectLike\<close>, \<open>isCollection\<close> and \<open>forEach\<close> of the iterall package, the
    conversion \<open>String\<close>, the assignment \<open>object[name] = value\<close> to the object under
    construction, and what a fresh object and a fresh array inherit. The helpers
    \<open>suggestionList\<close> and \<open>didYouMean\<close> are modelled from the specification over a
    similarity and a rendering that are parameters. The theorems hold for every
    \<open>env\<close>; where one asks more of it, it says so.
\<close>

subsection \<open>JavaScript values\<close>

datatype jsval =
    JUndefined
  | JNull
  | JBool bool
  | JNum int
  | JStr string
  | JFun string
  | JArr "jsval option list" "(string \<times> jsval) list"
  | JObj "(string \<times> jsval) list" "(string \<times> jsval) list"

text \<open>\<open>inputValue == null\<close>: loose equality holds for \<open>null\<close> and \<open>undefined\<close> only.\<close>

definition isNullish :: "jsval \<Rightarrow> bool" where
  "isNullish v = (v = JNull \<or> v = JUndefined)"

text \<open>Decimal rendering of an array index, as JavaScript names the index properties.\<close>

fun showNat :: "nat \<Rightarrow> string" where
  "showNat n =
     (if n < 10 then [''0123456789'' ! n]
      else showNat (n div 10) @ [''0123456789'' ! (n mod 10)])"

declare showNat.simps [simp del]

text \<open>
  The own enumerable properties of a value, in \<open>Object.keys\<close> order: those of an
  object, and the elements of an array under their indices, a hole being no property.
\<close>

fun ownProps :: "jsval \<Rightarrow> (string \<times> jsval) list" where
  "ownProps (JObj own other) = own"
| "ownProps (JArr elems other) =
     concat (map (\<lambda>(i, e). case e of None \<Rightarrow> [] | Some x \<Rightarrow> [(showNat i, x)])
               (enumerate 0 elems))"
| "ownProps _ = []"

text \<open>
  The other readable properties of a value: the inherited members and the own
  properties that are not enumerable, as the length of an array.
\<close>

fun otherProps :: "jsval \<Rightarrow> (string \<times> jsval) list" where
  "otherProps (JObj own other) = other"
| "otherProps (JArr elems other) = (''length'', JNum (int (length elems))) # other"
| "otherProps _ = []"

text \<open>
  \<open>inputValue[name]\<close> for a name that is a string: the own property of that name, else
  the inherited one, else \<open>undefined\<close>. The source reads a property only of a value
  that passed \<open>isObjectLike\<close>.
\<close>

definition getProp :: "jsval \<Rightarrow> string \<Rightarrow> jsval" where
  "getProp v k = (case map_of (ownProps v @ otherProps v) k of None \<Rightarrow> JUndefined | Some x \<Rightarrow> x)"

text \<open>\<open>Object.keys(inputValue)\<close>: the names of the own enumerable properties, in order.\<close>

definition objectKeys :: "jsval \<Rightarrow> string list" where
  "objectKeys v = map fst (ownProps v)"

text \<open>
  Writing an own property into a list of own properties: an existing property keeps
  its place and takes the new value, a new one is added last.
\<close>

fun setProp :: "(string \<times> jsval) list \<Rightarrow> string \<Rightarrow> jsval \<Rightarrow> (string \<times> jsval) list" where
  "setProp [] k v = [(k, v)]"
| "setProp (p # ps) k v = (if fst p = k then (k, v) # ps else p # setProp ps k v)"

subsection \<open>Errors\<close>

text \<open>
  A raised JavaScript error: an error of this system's own kind (\<open>GraphQLError\<close>, with
  its message and the \<open>originalError\<close> it wraps, if any) or any other error with a
  message. \<open>error instanceof GraphQLError\<close> is the test for the constructor.
\<close>

datatype jserror =
    Error (message: string)
  | GraphQLError (message: string) (originalError: "jserror option")

fun isGraphQLError :: "jserror \<Rightarrow> bool" where
  "isGraphQLError (GraphQLError _ _) = True"
| "isGraphQLError (Error _) = False"

text \<open>\<open>error.message = m\<close>.\<close>

fun setMessage :: "jserror \<Rightarrow> string \<Rightarrow> jserror" where
  "setMessage (GraphQLError _ orig) m = GraphQLError m orig"
| "setMessage (Error _) m = Error m"

text \<open>What a call of a scalar's \<open>parseValue\<close> does: it returns a value or raises.\<close>

datatype parse_result = Returns jsval | Throws jserror

subsection \<open>Input types\<close>

text \<open>
  The five kinds of \<open>GraphQLInputType\<close>, one constructor each, so that the tests
  \<open>isNonNullType\<close>, \<open>isListType\<close>, \<open>isInputObjectType\<close>, \<open>isScalarType\<close> and
  \<open>isEnumType\<close> of the source are pattern matching and the final \<open>invariant(false)\<close>
  is unreachable. An input-object type carries its name and its field definitions in
  declaration order (\<open>objectValues(type.getFields())\<close>); a field has a \<open>name\<close>, a
  \<open>type\<close> and a \<open>defaultValue\<close>, which is \<open>undefined\<close> when none is declared. A
  scalar type carries its name and \<open>parseValue\<close>, a function of the input value and of
  the state of the scalars, of type \<open>'p\<close>; an enum type its name and its values, each
  a name with its internal \<open>value\<close>.
\<close>

datatype 'p gtype =
    GraphQLNonNull "'p gtype"
  | GraphQLList "'p gtype"
  | GraphQLInputObjectType string "'p field list"
  | GraphQLScalarType string "jsval \<Rightarrow> 'p \<Rightarrow> parse_result \<times> 'p"
  | GraphQLEnumType string "(string \<times> jsval) list"
and 'p field = Field (name: string) (type: "'p gtype") (defaultValue: jsval)

fun isNonNullType :: "'p gtype \<Rightarrow> bool" where
  "isNonNullType (GraphQLNonNull _) = True"
| "isNonNullType _ = False"

text \<open>
  \<open>fieldDefs[fieldName]\<close>: the field definition stored under a name, if any. The
  map that \<open>getFields\<close> returns is read as a map of the declared fields only, with no
  inherited member.
\<close>

definition lookupField :: "'p field list \<Rightarrow> string \<Rightarrow> 'p field option" where
  "lookupField fieldDefs fieldName = find (\<lambda>f. name f = fieldName) fieldDefs"

text \<open>
  \<open>type.getValue(name)\<close> of an enum type: the declared value of that name, if any,
  and nothing at a name that is not declared.
\<close>

definition getValue :: "(string \<times> jsval) list \<Rightarrow> string \<Rightarrow> (string \<times> jsval) option" where
  "getValue values n = find (\<lambda>enumValue. fst enumValue = n) values"

subsection \<open>Paths\<close>

datatype pathkey = Key string | Index nat

text \<open>
  Modelled from the spec: the type \<open>Path\<close> of the module \<open>jsutils/Path\<close>, which is not
  among the sources. A path is absent (\<open>Path | void\<close>) or an immutable node holding the
  previous path and a key.
\<close>

datatype Path = Path (prev: "Path option") (key: pathkey)

text \<open>
  Modelled from the spec: \<open>addPath\<close> of \<open>jsutils/Path\<close>, ``\<open>extend(path, key)\<close>,
  O(1), allocates one node''.
\<close>

definition addPath :: "Path option \<Rightarrow> pathkey \<Rightarrow> Path option" where
  "addPath p k = Some (Path p k)"

text \<open>
  Modelled from the spec: \<open>pathToArray\<close> of \<open>jsutils/Path\<close>, ``conversion to a
  reportable sequence walks from leaf to root and reverses''; \<open>flattened\<close> is the walk.
\<close>

fun flattened :: "Path option \<Rightarrow> pathkey list" where
  "flattened None = []"
| "flattened (Some (Path p k)) = k # flattened p"

definition pathToArray :: "Path option \<Rightarrow> pathkey list" where
  "pathToArray path = rev (flattened path)"

subsection \<open>The runtime and the imported helpers\<close>

text \<open>
  \<^item> \<open>inspect\<close> renders a value and \<open>inspectType\<close> is \<open>inspect\<close> at a type;
    \<open>printPathArray\<close> renders a path.
  \<^item> \<open>jsString\<close> is the conversion \<open>String(value)\<close> of a value that is not a string:
    it returns a string or throws (an object with no callable \<open>toString\<close> and
    \<open>valueOf\<close> has no conversion).
  \<^item> \<open>similarity input candidate\<close> is the string similarity of the suggestions:
    \<open>None\<close> when the candidate does not clear the threshold of the input, else its
    rank, the better match having the smaller one. \<open>renderSuggestions\<close> is the text
    that \<open>didYouMean\<close> makes of a suggestion list that is not empty.
  \<^item> \<open>isObjectLike\<close> and \<open>isCollection\<close> are the two predicates; \<open>forEachItems\<close> is
    the sequence of the calls that \<open>forEach\<close> makes of its callback at a collection,
    each an index and an item (an array's \<open>forEach\<close> passes the index of the element
    and skips the holes).
  \<^item> \<open>objectInherited\<close> and \<open>arrayInherited\<close> are the other readable properties of
    a fresh object \<open>{}\<close> and, besides its length, of a fresh array \<open>[]\<close>: the members
    of \<open>Object.prototype\<close> and \<open>Array.prototype\<close>.
  \<^item> \<open>setProperty object name value\<close> is the object after the assignment
    \<open>object[name] = value\<close>, for an object that this function builds. (In a standard
    runtime it writes an own property, unless the name is \<open>__proto__\<close>, which is the
    setter of the prototype.)
\<close>

record ('p, 'x) env =
  inspect :: "jsval \<Rightarrow> string"
  inspectType :: "'p gtype \<Rightarrow> string"
  printPathArray :: "pathkey list \<Rightarrow> string"
  jsString :: "jsval \<Rightarrow> 'x + string"
  similarity :: "string \<Rightarrow> string \<Rightarrow> nat option"
  renderSuggestions :: "string option \<Rightarrow> string list \<Rightarrow> string"
  isObjectLike :: "jsval \<Rightarrow> bool"
  isCollection :: "jsval \<Rightarrow> bool"
  forEachItems :: "jsval \<Rightarrow> (nat \<times> jsval) list"
  objectInherited :: "(string \<times> jsval) list"
  arrayInherited :: "(string \<times> jsval) list"
  setProperty :: "jsval \<Rightarrow> string \<Rightarrow> jsval \<Rightarrow> jsval"

text \<open>\<open>String(inputValue)\<close>: a string is its own conversion.\<close>

definition toStr :: "('p, 'x) env \<Rightarrow> jsval \<Rightarrow> 'x + string" where
  "toStr env v = (case v of JStr str \<Rightarrow> Inr str | _ \<Rightarrow> jsString env v)"

text \<open>
  Modelled from the spec: \<open>suggestionList\<close> of \<open>jsutils/suggestionList\<close>, which is not
  among the sources: ``\<open>suggest(candidate, pool)\<close>, best matches first, possibly
  empty'', the matches being the candidates that clear the similarity threshold.
\<close>

definition suggestionList :: "('p, 'x) env \<Rightarrow> string \<Rightarrow> string list \<Rightarrow> string list" where
  "suggestionList env input options =
     sort_key (\<lambda>option. case similarity env input option of None \<Rightarrow> 0 | Some rank \<Rightarrow> rank)
       (filter (\<lambda>option. similarity env input option \<noteq> None) options)"

text \<open>
  Modelled from the spec: \<open>didYouMean\<close> of \<open>jsutils/didYouMean\<close>, which is not among
  the sources: the suggestion is ``rendered only when at least one candidate clears
  its similarity threshold''. The source calls it with and without a first argument.
\<close>

definition didYouMean :: "('p, 'x) env \<Rightarrow> string option \<Rightarrow> string list \<Rightarrow> string" where
  "didYouMean env subMessage suggestions =
     (if suggestions = [] then [] else renderSuggestions env subMessage suggestions)"

text \<open>A name between double quotes, as the message templates of the source write it.\<close>

definition quoted :: "string \<Rightarrow> string" where
  "quoted s = CHR 0x22 # s @ [CHR 0x22]"

text \<open>The object after a sequence of assignments, one after the other.\<close>

definition setProperties :: "('p, 'x) env \<Rightarrow> jsval \<Rightarrow> (string \<times> jsval) list \<Rightarrow> jsval" where
  "setProperties env object entries = foldl (\<lambda>obj (k, v). setProperty env obj k v) object entries"

subsection \<open>The callback\<close>

type_synonym report = "pathkey list \<times> jsval \<times> jserror"

type_synonym ('w, 'x) OnErrorCB = "pathkey list \<Rightarrow> jsval \<Rightarrow> jserror \<Rightarrow> 'w \<Rightarrow> 'x + 'w"

text \<open>The default callback: it extends the message of the error and raises it.\<close>

definition defaultOnError :: "('p, jserror) env \<Rightarrow> ('w, jserror) OnErrorCB" where
  "defaultOnError env path invalidValue error w =
     (let errorPrefix = ''Invalid value '' @ inspect env invalidValue;
          errorPrefix = (if length path > 0
                         then errorPrefix @ '' at '' @ quoted (''value'' @ printPathArray env path)
                         else errorPrefix)
      in Inl (setMessage error (errorPrefix @ '': '' @ message error)))"

text \<open>
  The callback of a caller who collects every error: it appends the report to the list
  it keeps, leaves the state of the scalars alone and returns normally.
\<close>

definition collectErrors :: "(report list \<times> 'p, 'x) OnErrorCB" where
  "collectErrors path invalidValue error w = Inr (fst w @ [(path, invalidValue, error)], snd w)"

subsection \<open>The coercion\<close>

text \<open>The error messages of the source.\<close>

definition nonNullMessage :: "('p, 'x) env \<Rightarrow> 'p gtype \<Rightarrow> string" where
  "nonNullMessage env t =
     ''Expected non-nullable type '' @ quoted (inspectType env t) @ '' not to be null.''"

definition notAnObjectMessage :: "string \<Rightarrow> string" where
  "notAnObjectMessage typeName = ''Expected type '' @ quoted typeName @ '' to be an object.''"

definition notProvidedMessage :: "('p, 'x) env \<Rightarrow> 'p field \<Rightarrow> string" where
  "notProvidedMessage env f =
     ''Field '' @ quoted (name f) @ '' of required type '' @ quoted (inspectType env (type f))
       @ '' was not provided.''"

definition notDefinedMessage :: "('p, 'x) env \<Rightarrow> string \<Rightarrow> 'p field list \<Rightarrow> string \<Rightarrow> string" where
  "notDefinedMessage env typeName fieldDefs fieldName =
     ''Field '' @ quoted fieldName @ '' is not defined by type '' @ quoted typeName @ ''.''
       @ didYouMean env None (suggestionList env fieldName (map name fieldDefs))"

definition expectedTypeMessage :: "string \<Rightarrow> string" where
  "expectedTypeMessage typeName = ''Expected type '' @ quoted typeName @ ''.''"

definition parseErrorMessage :: "string \<Rightarrow> jserror \<Rightarrow> string" where
  "parseErrorMessage typeName error = ''Expected type '' @ quoted typeName @ ''. '' @ message error"

text \<open>The message of the enum case, from the conversion \<open>String(inputValue)\<close>.\<close>

definition enumMessage :: "('p, 'x) env \<Rightarrow> string \<Rightarrow> (string \<times> jsval) list \<Rightarrow> string \<Rightarrow> string" where
  "enumMessage env typeName values str =
     expectedTypeMessage typeName
       @ didYouMean env (Some ''the enum value'') (suggestionList env str (map fst values))"

text \<open>
  The second loop of the input-object case (``Ensure every provided field is
  defined''), over \<open>Object.keys(inputValue)\<close>.
\<close>

fun checkProvidedFields ::
  "('p, 'x) env \<Rightarrow> ('w, 'x) OnErrorCB \<Rightarrow> jsval \<Rightarrow> string \<Rightarrow> 'p field list \<Rightarrow> Path option \<Rightarrow>
   string list \<Rightarrow> 'w \<Rightarrow> 'x + 'w" where
  "checkProvidedFields env onError inputValue typeName fieldDefs path [] w = Inr w"
| "checkProvidedFields env onError inputValue typeName fieldDefs path (fieldName # rest) w =
     (if lookupField fieldDefs fieldName = None then
        (case onError (pathToArray path) inputValue
                (GraphQLError (notDefinedMessage env typeName fieldDefs fieldName) None) w of
           Inl x \<Rightarrow> Inl x
         | Inr w' \<Rightarrow> checkProvidedFields env onError inputValue typeName fieldDefs path rest w')
      else checkProvidedFields env onError inputValue typeName fieldDefs path rest w)"

text \<open>
  \<open>coerceInputValueImpl\<close>, with its two loops that recurse: \<open>coerceItems\<close> is the
  \<open>forEach\<close> of the list case (the calls that remain, each an index and an item, and
  the values pushed so far), \<open>coerceFields\<close> the \<open>for\<close> over the field definitions of
  the input-object case (the remaining fields and the object built so far).
\<close>

function coerceInputValueImpl ::
  "('p, 'x) env \<Rightarrow> ('s \<times> 'p, 'x) OnErrorCB \<Rightarrow> jsval \<Rightarrow> 'p gtype \<Rightarrow> Path option \<Rightarrow> 's \<times> 'p \<Rightarrow>
   'x + jsval \<times> ('s \<times> 'p)"
and coerceItems ::
  "('p, 'x) env \<Rightarrow> ('s \<times> 'p, 'x) OnErrorCB \<Rightarrow> (nat \<times> jsval) list \<Rightarrow> 'p gtype \<Rightarrow> Path option \<Rightarrow>
   jsval list \<Rightarrow> 's \<times> 'p \<Rightarrow> 'x + jsval list \<times> ('s \<times> 'p)"
and coerceFields ::
  "('p, 'x) env \<Rightarrow> ('s \<times> 'p, 'x) OnErrorCB \<Rightarrow> jsval \<Rightarrow> 'p field list \<Rightarrow> Path option \<Rightarrow>
   jsval \<Rightarrow> 's \<times> 'p \<Rightarrow> 'x + jsval \<times> ('s \<times> 'p)"
where
  "coerceInputValueImpl env onError inputValue (GraphQLNonNull ofType) path w =
     (if \<not> isNullish inputValue then
        coerceInputValueImpl env onError inputValue ofType path w
      else
        (case onError (pathToArray path) inputValue
                (GraphQLError (nonNullMessage env (GraphQLNonNull ofType)) None) w of
           Inl x \<Rightarrow> Inl x
         | Inr w' \<Rightarrow> Inr (JUndefined, w')))"
| "coerceInputValueImpl env onError inputValue (GraphQLList itemType) path w =
     (if isNullish inputValue then Inr (JNull, w)
      else if isCollection env inputValue then
        (case coerceItems env onError (forEachItems env inputValue) itemType path [] w of
           Inl x \<Rightarrow> Inl x
         | Inr (coercedValue, w') \<Rightarrow> Inr (JArr (map Some coercedValue) (arrayInherited env), w'))
      else
        (case coerceInputValueImpl env onError inputValue itemType path w of
           Inl x \<Rightarrow> Inl x
         | Inr (coercedItem, w') \<Rightarrow> Inr (JArr [Some coercedItem] (arrayInherited env), w')))"
| "coerceInputValueImpl env onError inputValue (GraphQLInputObjectType typeName fieldDefs) path w =
     (if isNullish inputValue then Inr (JNull, w)
      else if \<not> isObjectLike env inputValue then
        (case onError (pathToArray path) inputValue
                (GraphQLError (notAnObjectMessage typeName) None) w of
           Inl x \<Rightarrow> Inl x
         | Inr w' \<Rightarrow> Inr (JUndefined, w'))
      else
        (case coerceFields env onError inputValue fieldDefs path
                (JObj [] (objectInherited env)) w of
           Inl x \<Rightarrow> Inl x
         | Inr (coercedValue, w') \<Rightarrow>
             (case checkProvidedFields env onError inputValue typeName fieldDefs path
                     (objectKeys inputValue) w' of
                Inl x \<Rightarrow> Inl x
              | Inr w'' \<Rightarrow> Inr (coercedValue, w''))))"
| "coerceInputValueImpl env onError inputValue (GraphQLScalarType typeName parseValue) path w =
     (if isNullish inputValue then Inr (JNull, w)
      else
        (case parseValue inputValue (snd w) of
           (Throws error, p') \<Rightarrow>
             (case onError (pathToArray path) inputValue
                     (if isGraphQLError error then error
                      else GraphQLError (parseErrorMessage typeName error) (Some error))
                     (fst w, p') of
                Inl x \<Rightarrow> Inl x
              | Inr w' \<Rightarrow> Inr (JUndefined, w'))
         | (Returns parseResult, p') \<Rightarrow>
             (if parseResult = JUndefined then
                (case onError (pathToArray path) inputValue
                        (GraphQLError (expectedTypeMessage typeName) None) (fst w, p') of
                   Inl x \<Rightarrow> Inl x
                 | Inr w' \<Rightarrow> Inr (parseResult, w'))
              else Inr (parseResult, (fst w, p')))))"
| "coerceInputValueImpl env onError inputValue (GraphQLEnumType typeName values) path w =
     (if isNullish inputValue then Inr (JNull, w)
      else
        (case (case inputValue of JStr str \<Rightarrow> getValue values str | _ \<Rightarrow> None) of
           Some enumValue \<Rightarrow> Inr (snd enumValue, w)
         | None \<Rightarrow>
             (case toStr env inputValue of
                Inl x \<Rightarrow> Inl x
              | Inr str \<Rightarrow>
                  (case onError (pathToArray path) inputValue
                          (GraphQLError (enumMessage env typeName values str) None) w of
                     Inl x \<Rightarrow> Inl x
                   | Inr w' \<Rightarrow> Inr (JUndefined, w')))))"
| "coerceItems env onError [] itemType path coercedValue w = Inr (coercedValue, w)"
| "coerceItems env onError ((index, itemValue) # rest) itemType path coercedValue w =
     (case coerceInputValueImpl env onError itemValue itemType (addPath path (Index index)) w of
        Inl x \<Rightarrow> Inl x
      | Inr (coercedItem, w') \<Rightarrow>
          coerceItems env onError rest itemType path (coercedValue @ [coercedItem]) w')"
| "coerceFields env onError inputValue [] path coercedValue w = Inr (coercedValue, w)"
| "coerceFields env onError inputValue (field # rest) path coercedValue w =
     (let fieldValue = getProp inputValue (name field) in
      if fieldValue = JUndefined then
        (if defaultValue field \<noteq> JUndefined then
           coerceFields env onError inputValue rest path
             (setProperty env coercedValue (name field) (defaultValue field)) w
         else if isNonNullType (type field) then
           (case onError (pathToArray path) inputValue
                   (GraphQLError (notProvidedMessage env field) None) w of
              Inl x \<Rightarrow> Inl x
            | Inr w' \<Rightarrow> coerceFields env onError inputValue rest path coercedValue w')
         else coerceFields env onError inputValue rest path coercedValue w)
      else
        (case coerceInputValueImpl env onError fieldValue (type field)
                (addPath path (Key (name field))) w of
           Inl x \<Rightarrow> Inl x
         | Inr (coercedField, w') \<Rightarrow>
             coerceFields env onError inputValue rest path
               (setProperty env coercedValue (name field) coercedField) w'))"
  by pat_completeness auto

termination
  by (relation "inv_image (less_than <*lex*> less_than)
        (\<lambda>x. case x of
           Inl (env, onError, inputValue, t, path, w) \<Rightarrow> (size t, 0)
         | Inr (Inl (env, onError, items, t, path, coercedValue, w)) \<Rightarrow>
             (size t, Suc (length items))
         | Inr (Inr (env, onError, inputValue, fieldDefs, path, coercedValue, w)) \<Rightarrow>
             (size_list size fieldDefs, 0))")
    (auto, case_tac field, simp)

text \<open>
  The exported function. \<open>onError\<close> is optional and defaults to \<open>defaultOnError\<close>;
  the coercion starts with no path.
\<close>

definition coerceInputValue ::
  "('p, jserror) env \<Rightarrow> jsval \<Rightarrow> 'p gtype \<Rightarrow> ('s \<times> 'p, jserror) OnErrorCB option \<Rightarrow> 's \<times> 'p \<Rightarrow>
   jserror + jsval \<times> ('s \<times> 'p)" where
  "coerceInputValue env inputValue t onError w =
     coerceInputValueImpl env
       (case onError of None \<Rightarrow> defaultOnError env | Some cb \<Rightarrow> cb) inputValue t None w"

subsection \<open>Runs of the coercion\<close>

text \<open>
  Reporting a sequence of errors to a callback, one after the other, until the callback
  raises: what a caller observes of a coercion that finds these errors in this order.
\<close>

fun reportAll :: "('w, 'x) OnErrorCB \<Rightarrow> report list \<Rightarrow> 'w \<Rightarrow> 'x + 'w" where
  "reportAll onError [] w = Inr w"
| "reportAll onError ((path, invalidValue, error) # rest) w =
     (case onError path invalidValue error w of
        Inl x \<Rightarrow> Inl x
      | Inr w' \<Rightarrow> reportAll onError rest w')"

text \<open>
  The outcome of a step that reports to the callback and then returns \<open>r\<close>: the raise
  of the callback, or \<open>r\<close> with the state the callback left.
\<close>

definition returning :: "'x + 'w \<Rightarrow> 'a \<Rightarrow> 'x + 'a \<times> 'w" where
  "returning reported r = (case reported of Inl x \<Rightarrow> Inl x | Inr w' \<Rightarrow> Inr (r, w'))"

text \<open>
  The collect-all run: a coercion whose callback is \<open>collectErrors\<close>, started with no
  error. Unless the conversion \<open>String\<close> throws, it returns the coerced value with
  the errors in the order of their discovery, and the state of the scalars.
\<close>

definition collectAll ::
  "('p, 'x) env \<Rightarrow> jsval \<Rightarrow> 'p gtype \<Rightarrow> Path option \<Rightarrow> 'p \<Rightarrow> 'x + (jsval \<times> report list) \<times> 'p" where
  "collectAll env inputValue t path p =
     (case coerceInputValueImpl env collectErrors inputValue t path ([], p) of
        Inl x \<Rightarrow> Inl x
      | Inr (r, (errors, p')) \<Rightarrow> Inr ((r, errors), p'))"

text \<open>
  A collect-all run that starts with the errors \<open>errors\<close>, from the one that starts
  with none.
\<close>

definition shifted ::
  "report list \<Rightarrow> 'x + 'a \<times> (report list \<times> 'p) \<Rightarrow> 'x + 'a \<times> (report list \<times> 'p)" where
  "shifted errors run =
     (case run of Inl x \<Rightarrow> Inl x | Inr (r, (es, p)) \<Rightarrow> Inr (r, (errors @ es, p)))"

text \<open>
  What the specification says of the elements of a sequence: each call of \<open>forEach\<close>,
  in order, coerces its item against the item type at the path extended by its index,
  in the state that the call before left. The outcome of a call is the coerced item
  with its errors.
\<close>

fun itemOutcomes ::
  "('p, 'x) env \<Rightarrow> (nat \<times> jsval) list \<Rightarrow> 'p gtype \<Rightarrow> Path option \<Rightarrow> 'p \<Rightarrow>
   'x + (jsval \<times> report list) list \<times> 'p" where
  "itemOutcomes env [] itemType path p = Inr ([], p)"
| "itemOutcomes env ((index, itemValue) # rest) itemType path p =
     (case collectAll env itemValue itemType (addPath path (Index index)) p of
        Inl x \<Rightarrow> Inl x
      | Inr (outcome, p') \<Rightarrow>
          (case itemOutcomes env rest itemType path p' of
             Inl x \<Rightarrow> Inl x
           | Inr (outcomes, p'') \<Rightarrow> Inr (outcome # outcomes, p'')))"

text \<open>
  What the specification says one declared field contributes to the result and to the
  errors of an object-like input value. An absent field with a default contributes the
  default; an absent field without one contributes no entry, and an error when its type
  is non-null; a present field contributes the coercion of its value at the path
  extended by the field name, and the errors of that coercion.
\<close>

definition fieldOutcome ::
  "('p, 'x) env \<Rightarrow> jsval \<Rightarrow> Path option \<Rightarrow> 'p field \<Rightarrow> 'p \<Rightarrow>
   'x + ((string \<times> jsval) list \<times> report list) \<times> 'p" where
  "fieldOutcome env inputValue path f p =
     (if getProp inputValue (name f) = JUndefined then
        Inr ((if defaultValue f \<noteq> JUndefined then [(name f, defaultValue f)] else [],
              if defaultValue f = JUndefined \<and> isNonNullType (type f)
              then [(pathToArray path, inputValue, GraphQLError (notProvidedMessage env f) None)]
              else []), p)
      else
        (case collectAll env (getProp inputValue (name f)) (type f)
                (addPath path (Key (name f))) p of
           Inl x \<Rightarrow> Inl x
         | Inr ((r, errors), p') \<Rightarrow> Inr (([(name f, r)], errors), p')))"

text \<open>
  The declared fields in declaration order, each in the state that the field before
  left: the entries to write, in order, and the errors.
\<close>

fun fieldOutcomes ::
  "('p, 'x) env \<Rightarrow> jsval \<Rightarrow> Path option \<Rightarrow> 'p field list \<Rightarrow> 'p \<Rightarrow>
   'x + ((string \<times> jsval) list \<times> report list) \<times> 'p" where
  "fieldOutcomes env inputValue path [] p = Inr (([], []), p)"
| "fieldOutcomes env inputValue path (f # rest) p =
     (case fieldOutcome env inputValue path f p of
        Inl x \<Rightarrow> Inl x
      | Inr ((entry, reports), p') \<Rightarrow>
          (case fieldOutcomes env inputValue path rest p' of
             Inl x \<Rightarrow> Inl x
           | Inr ((entries, reports'), p'') \<Rightarrow> Inr ((entry @ entries, reports @ reports'), p'')))"

text \<open>
  The unknown-field errors of an object-like input value: one for each of its keys, in
  their order, that names no declared field.
\<close>

definition unknownFieldReports ::
  "('p, 'x) env \<Rightarrow> jsval \<Rightarrow> string \<Rightarrow> 'p field list \<Rightarrow> Path option \<Rightarrow> report list" where
  "unknownFieldReports env inputValue typeName fieldDefs path =
     map (\<lambda>fieldName. (pathToArray path, inputValue,
                        GraphQLError (notDefinedMessage env typeName fieldDefs fieldName) None))
       (filter (\<lambda>fieldName. lookupField fieldDefs fieldName = None) (objectKeys inputValue))"

text \<open>
  The declared fields under whose names the coercion of an object-like input value
  writes: those that the input value has, and those that declare a default.
\<close>

definition writtenFields :: "jsval \<Rightarrow> 'p field list \<Rightarrow> 'p field list" where
  "writtenFields inputValue fieldDefs =
     filter (\<lambda>f. getProp inputValue (name f) \<noteq> JUndefined \<or> defaultValue f \<noteq> JUndefined) fieldDefs"

text \<open>Writing a sequence of entries into a list of own properties, one after the other.\<close>

definition setProps :: "(string \<times> jsval) list \<Rightarrow> (string \<times> jsval) list \<Rightarrow> (string \<times> jsval) list" where
  "setProps own entries = foldl (\<lambda>a (k, v). setProp a k v) own entries"

text \<open>
  A name at which the assignment to an object under construction writes an own
  property (in a standard runtime, every name but \<open>__proto__\<close>).
\<close>

definition writesOwn :: "('p, 'x) env \<Rightarrow> string \<Rightarrow> bool" where
  "writesOwn env k =
     (\<forall>own v. setProperty env (JObj own (objectInherited env)) k v =
               JObj (setProp own k v) (objectInherited env))"

text \<open>
  An assignment adds no own key but the one it assigns to (as in every runtime: the
  assignment at \<open>__proto__\<close> adds none).
\<close>

definition keepsKeys :: "('p, 'x) env \<Rightarrow> bool" where
  "keepsKeys env =
     (\<forall>object k v. set (objectKeys (setProperty env object k v)) \<subseteq> insert k (set (objectKeys object)))"

subsection \<open>Types whose coercion is idempotent\<close>





text \<open>
  The collect-all runs against \<open>t\<close> do not depend on the errors they start with.
\<close>

definition shifts :: "('p, 'x) env \<Rightarrow> 'p gtype \<Rightarrow> bool" where
  "shifts env t =
     (\<forall>v path errors p.
        coerceInputValueImpl env collectErrors v t path (errors, p) =
          shifted errors (coerceInputValueImpl env collectErrors v t path ([], p)))"

text \<open>
  On the reports \<open>reports\<close> the callback \<open>onError\<close> acts as \<open>cb\<close> does on the state
  it keeps, and leaves the state of the scalars alone.
\<close>

definition actsOn ::
  "('s \<times> 'p, 'x) OnErrorCB \<Rightarrow> ('s, 'x) OnErrorCB \<Rightarrow> report list \<Rightarrow> bool" where
  "actsOn onError cb reports =
     (\<forall>(path, v, e) \<in> set reports. \<forall>s p.
        onError path v e (s, p) =
          (case cb path v e s of Inl x \<Rightarrow> Inl x | Inr s' \<Rightarrow> Inr (s', p)))"

text \<open>
  A coercion against \<open>t\<close> factors through its collect-all run: it reports the errors of
  that run to the callback, in their order and until it raises, and returns the value of
  that run.
\<close>

definition factors ::
  "('p, 'x) env \<Rightarrow> ('s \<times> 'p, 'x) OnErrorCB \<Rightarrow> ('s, 'x) OnErrorCB \<Rightarrow> 'p gtype \<Rightarrow> bool" where
  "factors env onError cb t =
     (\<forall>v path p r es p' s.
        collectAll env v t path p = Inr ((r, es), p') \<longrightarrow> actsOn onError cb es \<longrightarrow>
        coerceInputValueImpl env onError v t path (s, p) =
          (case reportAll cb es s of Inl x \<Rightarrow> Inl x | Inr s' \<Rightarrow> Inr (r, (s', p'))))"

subsection \<open>A sample environment and sample types\<close>

text \<open>
  Simple stand-ins for the runtime and the helpers, used to evaluate the coercion on
  concrete inputs. Arrays and objects are object-like, arrays are the collections and
  \<open>forEach\<close> passes each element that is no hole with its index; a fresh object
  inherits the members of \<open>Object.prototype\<close>; the assignment writes an own property,
  except at \<open>__proto__\<close>, where it replaces what the object inherits; an object has a
  conversion \<open>String\<close> when its \<open>toString\<close> is a function; a candidate clears the
  threshold when it has the length and the first letter of the input.
\<close>

fun printType :: "'p gtype \<Rightarrow> string" where
  "printType (GraphQLNonNull t) = printType t @ ''!''"
| "printType (GraphQLList t) = ''['' @ printType t @ '']''"
| "printType (GraphQLInputObjectType n _) = n"
| "printType (GraphQLScalarType n _) = n"
| "printType (GraphQLEnumType n _) = n"

fun printValue :: "jsval \<Rightarrow> string" where
  "printValue JUndefined = ''undefined''"
| "printValue JNull = ''null''"
| "printValue (JBool b) = (if b then ''true'' else ''false'')"
| "printValue (JNum n) = (if n < 0 then ''-'' else []) @ showNat (nat (abs n))"
| "printValue (JStr s) = s"
| "printValue (JFun f) = ''[function '' @ f @ '']''"
| "printValue (JArr elems other) = ''[Array]''"
| "printValue (JObj own other) = ''[object Object]''"

fun printKey :: "pathkey \<Rightarrow> string" where
  "printKey (Key k) = ''.'' @ k"
| "printKey (Index i) = ''['' @ showNat i @ '']''"

definition objectMembers :: "(string \<times> jsval) list" where
  "objectMembers =
     [(''constructor'', JFun ''Object''),
      (''hasOwnProperty'', JFun ''hasOwnProperty''),
      (''isPrototypeOf'', JFun ''isPrototypeOf''),
      (''propertyIsEnumerable'', JFun ''propertyIsEnumerable''),
      (''toLocaleString'', JFun ''toLocaleString''),
      (''toString'', JFun ''toString''),
      (''valueOf'', JFun ''valueOf'')]"

definition objectPrototype :: "(string \<times> jsval) list" where
  "objectPrototype = (''__proto__'', JObj [] objectMembers) # objectMembers"

definition arrayPrototype :: "(string \<times> jsval) list" where
  "arrayPrototype =
     [(''forEach'', JFun ''forEach''), (''push'', JFun ''push''), (''map'', JFun ''map''),
      (''filter'', JFun ''filter'')] @ objectMembers"

definition sampleString :: "jsval \<Rightarrow> jserror + string" where
  "sampleString v =
     (case v of
        JObj own other \<Rightarrow>
          (case getProp v ''toString'' of
             JFun f \<Rightarrow> Inr ''[object Object]''
           | _ \<Rightarrow> Inl (Error ''Cannot convert object to primitive value''))
      | _ \<Rightarrow> Inr (printValue v))"

definition sampleSetProperty :: "jsval \<Rightarrow> string \<Rightarrow> jsval \<Rightarrow> jsval" where
  "sampleSetProperty object k v =
     (case object of
        JObj own other \<Rightarrow>
          (if k = ''__proto__'' then
             (case v of
                JObj own' other' \<Rightarrow> JObj own ((k, v) # own' @ other')
              | JArr elems other' \<Rightarrow> JObj own ((k, v) # ownProps v @ otherProps v)
              | JNull \<Rightarrow> JObj own []
              | _ \<Rightarrow> object)
           else JObj (setProp own k v) other)
      | _ \<Rightarrow> object)"

definition testEnv :: "('p, jserror) env" where
  "testEnv = \<lparr>
     inspect = (\<lambda>v. case v of JStr s \<Rightarrow> quoted s | _ \<Rightarrow> printValue v),
     inspectType = printType,
     printPathArray = (\<lambda>path. concat (map printKey path)),
     jsString = sampleString,
     similarity = (\<lambda>input option.
       if length option = length input \<and> take 1 option = take 1 input then Some 0 else None),
     renderSuggestions = (\<lambda>subMessage suggestions.
       '' Did you mean '' @ (case subMessage of None \<Rightarrow> [] | Some m \<Rightarrow> m @ '' '')
         @ concat (map quoted suggestions) @ ''?''),
     isObjectLike = (\<lambda>v. case v of JObj _ _ \<Rightarrow> True | JArr _ _ \<Rightarrow> True | _ \<Rightarrow> False),
     isCollection = (\<lambda>v. case v of JArr _ _ \<Rightarrow> True | _ \<Rightarrow> False),
     forEachItems = (\<lambda>v. case v of
        JArr elems other \<Rightarrow>
          concat (map (\<lambda>(i, e). case e of None \<Rightarrow> [] | Some x \<Rightarrow> [(i, x)]) (enumerate 0 elems))
      | _ \<Rightarrow> []),
     objectInherited = objectPrototype,
     arrayInherited = arrayPrototype,
     setProperty = sampleSetProperty
   \<rparr>"

text \<open>A scalar that accepts the numbers and raises at every other value.\<close>

definition parseInt :: "jsval \<Rightarrow> 'p \<Rightarrow> parse_result \<times> 'p" where
  "parseInt v p =
     (case v of JNum n \<Rightarrow> Returns (JNum n) | _ \<Rightarrow> Throws (Error ''not an integer''), p)"

definition GraphQLInt :: "'p gtype" where
  "GraphQLInt = GraphQLScalarType ''Int'' parseInt"

text \<open>
  A scalar whose \<open>parseValue\<close> counts its calls and shows every outcome: it accepts
  the numbers, raises an error of the system's own kind at a string, returns
  \<open>undefined\<close> at a boolean and \<open>null\<close> at an array, and raises another error at
  every other value.
\<close>

definition parseCounting :: "jsval \<Rightarrow> nat \<Rightarrow> parse_result \<times> nat" where
  "parseCounting v calls =
     (case v of
        JNum n \<Rightarrow> Returns (JNum n)
      | JStr str \<Rightarrow> Throws (GraphQLError ''no strings'' None)
      | JBool b \<Rightarrow> Returns JUndefined
      | JArr elems other \<Rightarrow> Returns JNull
      | _ \<Rightarrow> Throws (Error ''not a number''),
      Suc calls)"

text \<open>An enum whose internal values are numbers, and input-object types.\<close>

definition colorType :: "'p gtype" where
  "colorType = GraphQLEnumType ''Color'' [(''RED'', JNum 0), (''BLUE'', JNum 1)]"

definition nameFields :: "'p field list" where
  "nameFields = [Field ''name'' (GraphQLNonNull GraphQLInt) JUndefined]"

definition taggedFields :: "'p field list" where
  "taggedFields =
     [Field ''id'' (GraphQLNonNull GraphQLInt) JUndefined,
      Field ''tag'' colorType (JStr ''PURPLE''),
      Field ''note'' GraphQLInt JUndefined,
      Field ''count'' GraphQLInt JUndefined]"

definition taggedType :: "'p gtype" where
  "taggedType = GraphQLInputObjectType ''Tagged'' taggedFields"

text \<open>
  An enum whose internal values are names, and an input-object type over it whose
  default is a declared name.
\<close>

definition tagType :: "'p gtype" where
  "tagType = GraphQLEnumType ''Tag'' [(''RED'', JStr ''BLUE''), (''BLUE'', JStr ''BLUE'')]"


section \<open>Collect-all runs\<close>

lemma returning_simps [simp]:
  "returning (Inl x) r = Inl x"
  "returning (Inr w) r = Inr (r, w)"
  by (simp_all add: returning_def)

lemma shifted_simps [simp]:
  "shifted errors (Inl x) = Inl x"
  "shifted errors (Inr (r, (es, p))) = Inr (r, (errors @ es, p))"
  by (simp_all add: shifted_def)

lemma shifted_Nil [simp]: "shifted [] run = run"
  by (simp add: shifted_def split: sum.splits)

lemma shifted_shifted [simp]: "shifted a (shifted b run) = shifted (a @ b) run"
  by (simp add: shifted_def split: sum.splits)

lemma collectErrors_apply [simp]:
  "collectErrors path v e (errors, p) = Inr (errors @ [(path, v, e)], p)"
  by (simp add: collectErrors_def)

lemma reportAll_append:
  "reportAll onError (es @ es') w =
     (case reportAll onError es w of Inl x \<Rightarrow> Inl x | Inr w' \<Rightarrow> reportAll onError es' w')"
  by (induction es arbitrary: w) (auto split: sum.splits)

lemma reportAll_collectErrors: "reportAll collectErrors es (errors, p) = Inr (errors @ es, p)"
  by (induction es arbitrary: errors) auto

lemma checkProvidedFields_reportAll:
  "checkProvidedFields env onError v n fs path (objectKeys v) w =
     reportAll onError (unknownFieldReports env v n fs path) w"
proof -
  have "checkProvidedFields env onError v n fs path ks w =
     reportAll onError
       (map (\<lambda>k. (pathToArray path, v, GraphQLError (notDefinedMessage env n fs k) None))
          (filter (\<lambda>k. lookupField fs k = None) ks)) w" for ks
    by (induction ks arbitrary: w) (auto split: sum.splits)
  then show ?thesis by (simp add: unknownFieldReports_def)
qed

lemma shiftsD:
  "shifts env t \<Longrightarrow>
   coerceInputValueImpl env collectErrors v t path (errors, p) =
     shifted errors (coerceInputValueImpl env collectErrors v t path ([], p))"
  unfolding shifts_def by blast

lemma coerceItems_shifted:
  assumes "shifts env t"
  shows "coerceItems env collectErrors items t path acc (errors, p) =
           shifted errors (coerceItems env collectErrors items t path acc ([], p))"
proof (induction items arbitrary: acc errors p)
  case Nil
  show ?case by simp
next
  case (Cons item items)
  obtain i x where item: "item = (i, x)" by (cases item)
  let ?m = "coerceInputValueImpl env collectErrors x t (addPath path (Index i)) ([], p)"
  have 1: "coerceInputValueImpl env collectErrors x t (addPath path (Index i)) (errors, p)
            = shifted errors ?m"
    by (rule shiftsD [OF assms])
  show ?case
  proof (cases ?m)
    case (Inl e)
    then show ?thesis by (simp add: item 1)
  next
    case (Inr b)
    then obtain r es1 p1 where m: "?m = Inr (r, (es1, p1))" by (cases b) auto
    have "coerceItems env collectErrors items t path (acc @ [r]) (errors @ es1, p1) =
        shifted (errors @ es1) (coerceItems env collectErrors items t path (acc @ [r]) ([], p1))"
      by (rule Cons.IH)
    moreover have "coerceItems env collectErrors items t path (acc @ [r]) (es1, p1) =
        shifted es1 (coerceItems env collectErrors items t path (acc @ [r]) ([], p1))"
      by (rule Cons.IH)
    ultimately show ?thesis by (simp add: item 1 m)
  qed
qed

lemma coerceFields_shifted:
  assumes "\<And>f. f \<in> set fs \<Longrightarrow> shifts env (type f)"
  shows "coerceFields env collectErrors v fs path acc (errors, p) =
           shifted errors (coerceFields env collectErrors v fs path acc ([], p))"
  using assms
proof (induction fs arbitrary: acc errors p)
  case Nil
  show ?case by simp
next
  case (Cons f fs)
  have IH: "coerceFields env collectErrors v fs path a (es, q) =
           shifted es (coerceFields env collectErrors v fs path a ([], q))" for a es q
    by (rule Cons.IH) (simp add: Cons.prems)
  have sf: "shifts env (type f)" using Cons.prems by simp
  consider (present) "getProp v (name f) \<noteq> JUndefined"
    | (default) "getProp v (name f) = JUndefined" "defaultValue f \<noteq> JUndefined"
    | (required) "getProp v (name f) = JUndefined" "defaultValue f = JUndefined"
        "isNonNullType (type f)"
    | (omitted) "getProp v (name f) = JUndefined" "defaultValue f = JUndefined"
        "\<not> isNonNullType (type f)"
    by blast
  then show ?case
  proof cases
    case present
    let ?m = "coerceInputValueImpl env collectErrors (getProp v (name f)) (type f)
                (addPath path (Key (name f))) ([], p)"
    have 1: "coerceInputValueImpl env collectErrors (getProp v (name f)) (type f)
                (addPath path (Key (name f))) (errors, p) = shifted errors ?m"
      by (rule shiftsD [OF sf])
    show ?thesis
    proof (cases ?m)
      case (Inl e)
      then show ?thesis by (simp add: present 1)
    next
      case (Inr b)
      then obtain r es1 p1 where m: "?m = Inr (r, (es1, p1))" by (cases b) auto
      show ?thesis
        by (simp add: present 1 m IH [of _ "errors @ es1"] IH [of _ es1])
    qed
  next
    case default
    then show ?thesis by (simp add: IH [of _ errors])
  next
    case required
    then show ?thesis
      by (simp add: IH [of _ "errors @ _"] IH [of _ "[_]"])
  next
    case omitted
    then show ?thesis by (simp add: IH [of _ errors])
  qed
qed

lemma shifts_all: "shifts env t" and "shifts env (type f)"
proof (induction t and f)
  case (GraphQLNonNull t)
  show ?case
    unfolding shifts_def
  proof (intro allI)
    fix v path errors p
    show "coerceInputValueImpl env collectErrors v (GraphQLNonNull t) path (errors, p) =
          shifted errors (coerceInputValueImpl env collectErrors v (GraphQLNonNull t) path ([], p))"
      by (cases "isNullish v") (simp_all add: shiftsD [OF GraphQLNonNull, of _ _ errors])
  qed
next
  case (GraphQLList t)
  show ?case
    unfolding shifts_def
  proof (intro allI)
    fix v path errors p
    show "coerceInputValueImpl env collectErrors v (GraphQLList t) path (errors, p) =
          shifted errors (coerceInputValueImpl env collectErrors v (GraphQLList t) path ([], p))"
    proof (cases "isNullish v")
      case True
      then show ?thesis by simp
    next
      case False
      show ?thesis
      proof (cases "isCollection env v")
        case True
        have "coerceItems env collectErrors (forEachItems env v) t path [] (errors, p) =
           shifted errors (coerceItems env collectErrors (forEachItems env v) t path [] ([], p))"
          by (rule coerceItems_shifted [OF GraphQLList])
        then show ?thesis
          using False True by (simp add: shifted_def split: sum.splits)
      next
        case c: False
        have "coerceInputValueImpl env collectErrors v t path (errors, p) =
           shifted errors (coerceInputValueImpl env collectErrors v t path ([], p))"
          by (rule shiftsD [OF GraphQLList])
        then show ?thesis
          using False c by (simp add: shifted_def split: sum.splits)
      qed
    qed
  qed
next
  case (GraphQLInputObjectType n fs)
  show ?case
    unfolding shifts_def
  proof (intro allI)
    fix v path errors p
    let ?o = "JObj [] (objectInherited env)"
    have 1: "coerceFields env collectErrors v fs path ?o (errors, p) =
           shifted errors (coerceFields env collectErrors v fs path ?o ([], p))"
      by (rule coerceFields_shifted) (use GraphQLInputObjectType in simp)
    show "coerceInputValueImpl env collectErrors v (GraphQLInputObjectType n fs) path (errors, p) =
          shifted errors (coerceInputValueImpl env collectErrors v (GraphQLInputObjectType n fs) path ([], p))"
    proof (cases "isNullish v \<or> \<not> isObjectLike env v")
      case True
      then show ?thesis by auto
    next
      case False
      then show ?thesis
        by (cases "coerceFields env collectErrors v fs path ?o ([], p)")
           (auto simp: 1 checkProvidedFields_reportAll reportAll_collectErrors)
    qed
  qed
next
  case (GraphQLScalarType n parseValue)
  show ?case
    unfolding shifts_def
  proof (intro allI)
    fix v path errors p
    show "coerceInputValueImpl env collectErrors v (GraphQLScalarType n parseValue) path (errors, p) =
          shifted errors (coerceInputValueImpl env collectErrors v (GraphQLScalarType n parseValue) path ([], p))"
      by (cases "isNullish v"; cases "parseValue v p")
         (auto split: parse_result.splits)
  qed
next
  case (GraphQLEnumType n vs)
  show ?case
    unfolding shifts_def
  proof (intro allI)
    fix v path errors p
    show "coerceInputValueImpl env collectErrors v (GraphQLEnumType n vs) path (errors, p) =
          shifted errors (coerceInputValueImpl env collectErrors v (GraphQLEnumType n vs) path ([], p))"
      by (cases "isNullish v"; cases "case v of JStr str \<Rightarrow> getValue vs str | _ \<Rightarrow> None";
          cases "toStr env v") auto
  qed
next
  case (Field n t d)
  then show ?case by simp
qed

lemma collectAll_run:
  "coerceInputValueImpl env collectErrors v t path (errors, p) =
     (case collectAll env v t path p of
        Inl x \<Rightarrow> Inl x
      | Inr ((r, es), p') \<Rightarrow> Inr (r, (errors @ es, p')))"
  by (simp add: shiftsD [OF shifts_all(1), of env v t path errors p] collectAll_def shifted_def
        split: sum.splits)

lemma setProperties_simps [simp]:
  "setProperties env obj [] = obj"
  "setProperties env obj ((k, x) # es) = setProperties env (setProperty env obj k x) es"
  "setProperties env obj (es @ es') = setProperties env (setProperties env obj es) es'"
  by (simp_all add: setProperties_def)

lemma coerceItems_collect:
  "coerceItems env collectErrors items t path acc (errors, p) =
     (case itemOutcomes env items t path p of
        Inl x \<Rightarrow> Inl x
      | Inr (os, p') \<Rightarrow> Inr (acc @ map fst os, (errors @ concat (map snd os), p')))"
proof (induction items arbitrary: acc errors p)
  case Nil
  show ?case by simp
next
  case (Cons item items)
  obtain i x where item: "item = (i, x)" by (cases item)
  show ?case
  proof (cases "collectAll env x t (addPath path (Index i)) p")
    case (Inl e)
    then show ?thesis by (simp add: item collectAll_run)
  next
    case (Inr b)
    then obtain r es1 p1 where m: "collectAll env x t (addPath path (Index i)) p = Inr ((r, es1), p1)"
      by (cases b) auto
    show ?thesis
      by (simp add: item collectAll_run m Cons.IH split: sum.splits)
  qed
qed

lemma fieldOutcome_cases:
  "getProp v (name f) \<noteq> JUndefined \<Longrightarrow>
     fieldOutcome env v path f p =
       (case collectAll env (getProp v (name f)) (type f) (addPath path (Key (name f))) p of
          Inl x \<Rightarrow> Inl x
        | Inr ((r, errors), p') \<Rightarrow> Inr (([(name f, r)], errors), p'))"
  "getProp v (name f) = JUndefined \<Longrightarrow> defaultValue f \<noteq> JUndefined \<Longrightarrow>
     fieldOutcome env v path f p = Inr (([(name f, defaultValue f)], []), p)"
  "getProp v (name f) = JUndefined \<Longrightarrow> defaultValue f = JUndefined \<Longrightarrow> isNonNullType (type f) \<Longrightarrow>
     fieldOutcome env v path f p =
       Inr (([], [(pathToArray path, v, GraphQLError (notProvidedMessage env f) None)]), p)"
  "getProp v (name f) = JUndefined \<Longrightarrow> defaultValue f = JUndefined \<Longrightarrow> \<not> isNonNullType (type f) \<Longrightarrow>
     fieldOutcome env v path f p = Inr (([], []), p)"
  by (simp_all add: fieldOutcome_def)

lemma field_cases [case_names present default required omitted]:
  assumes "getProp v (name f) \<noteq> JUndefined \<Longrightarrow> P"
    and "getProp v (name f) = JUndefined \<Longrightarrow> defaultValue f \<noteq> JUndefined \<Longrightarrow> P"
    and "getProp v (name f) = JUndefined \<Longrightarrow> defaultValue f = JUndefined \<Longrightarrow>
           isNonNullType (type f) \<Longrightarrow> P"
    and "getProp v (name f) = JUndefined \<Longrightarrow> defaultValue f = JUndefined \<Longrightarrow>
           \<not> isNonNullType (type f) \<Longrightarrow> P"
  shows P
  using assms by blast

lemma coerceFields_collect:
  "coerceFields env collectErrors v fs path acc (errors, p) =
     (case fieldOutcomes env v path fs p of
        Inl x \<Rightarrow> Inl x
      | Inr ((entries, reports), p') \<Rightarrow>
          Inr (setProperties env acc entries, (errors @ reports, p')))"
proof (induction fs arbitrary: acc errors p)
  case Nil
  show ?case by simp
next
  case (Cons f fs)
  show ?case
  proof (cases rule: field_cases [of v f])
    case present
    show ?thesis
    proof (cases "collectAll env (getProp v (name f)) (type f) (addPath path (Key (name f))) p")
      case (Inl e)
      then show ?thesis by (simp add: present collectAll_run fieldOutcome_cases(1))
    next
      case (Inr b)
      then obtain r es1 p1 where m: "collectAll env (getProp v (name f)) (type f)
          (addPath path (Key (name f))) p = Inr ((r, es1), p1)"
        by (cases b) auto
      show ?thesis
        by (simp add: present collectAll_run m fieldOutcome_cases(1) Cons.IH split: sum.splits)
    qed
  next
    case default
    then show ?thesis
      by (simp add: fieldOutcome_cases(2) Cons.IH split: sum.splits)
  next
    case required
    then show ?thesis
      by (simp add: fieldOutcome_cases(3) Cons.IH split: sum.splits)
  next
    case omitted
    then show ?thesis
      by (simp add: fieldOutcome_cases(4) Cons.IH split: sum.splits)
  qed
qed

lemma collectAll_NonNull:
  "collectAll env v (GraphQLNonNull t) path p =
      (if isNullish v
       then Inr ((JUndefined, [(pathToArray path, v,
                    GraphQLError (nonNullMessage env (GraphQLNonNull t)) None)]), p)
       else collectAll env v t path p)"
  by (simp add: collectAll_def)

lemma collectAll_nullish:
  "isNullish v \<Longrightarrow> \<not> isNonNullType t \<Longrightarrow> collectAll env v t path p = Inr ((JNull, []), p)"
  by (cases t) (simp_all add: collectAll_def)

lemma collectAll_List:
  "collectAll env v (GraphQLList t) path p =
      (if isNullish v then Inr ((JNull, []), p)
       else if isCollection env v
       then (case itemOutcomes env (forEachItems env v) t path p of
               Inl x \<Rightarrow> Inl x
             | Inr (os, p') \<Rightarrow>
                 Inr ((JArr (map Some (map fst os)) (arrayInherited env), concat (map snd os)), p'))
       else (case collectAll env v t path p of
               Inl x \<Rightarrow> Inl x
             | Inr ((r, es), p') \<Rightarrow> Inr ((JArr [Some r] (arrayInherited env), es), p')))"
  unfolding collectAll_def [of env v "GraphQLList t" path p]
  by (simp add: coerceItems_collect collectAll_run split: sum.splits)

lemma collectAll_InputObject:
  "collectAll env v (GraphQLInputObjectType n fs) path p =
      (if isNullish v then Inr ((JNull, []), p)
       else if \<not> isObjectLike env v
       then Inr ((JUndefined, [(pathToArray path, v, GraphQLError (notAnObjectMessage n) None)]), p)
       else (case fieldOutcomes env v path fs p of
               Inl x \<Rightarrow> Inl x
             | Inr ((entries, reports), p') \<Rightarrow>
                 Inr ((setProperties env (JObj [] (objectInherited env)) entries,
                       reports @ unknownFieldReports env v n fs path), p')))"
  unfolding collectAll_def [of env v "GraphQLInputObjectType n fs" path p]
  by (simp add: coerceFields_collect checkProvidedFields_reportAll reportAll_collectErrors
        split: sum.splits)

lemma collectAll_Scalar:
  "collectAll env v (GraphQLScalarType n parseValue) path p =
      (if isNullish v then Inr ((JNull, []), p)
       else case parseValue v p of
          (Throws error, p') \<Rightarrow> Inr ((JUndefined, [(pathToArray path, v,
              if isGraphQLError error then error
              else GraphQLError (parseErrorMessage n error) (Some error))]), p')
        | (Returns parseResult, p') \<Rightarrow>
            Inr ((parseResult, if parseResult = JUndefined
               then [(pathToArray path, v, GraphQLError (expectedTypeMessage n) None)] else []), p'))"
  by (simp add: collectAll_def split: parse_result.splits prod.splits)

lemma collectAll_Enum:
  "collectAll env v (GraphQLEnumType n vs) path p =
      (if isNullish v then Inr ((JNull, []), p)
       else case (case v of JStr str \<Rightarrow> getValue vs str | _ \<Rightarrow> None) of
          Some enumValue \<Rightarrow> Inr ((snd enumValue, []), p)
        | None \<Rightarrow>
            (case toStr env v of
               Inl x \<Rightarrow> Inl x
             | Inr str \<Rightarrow> Inr ((JUndefined, [(pathToArray path, v,
                            GraphQLError (enumMessage env n vs str) None)]), p)))"
  by (simp add: collectAll_def split: option.splits sum.splits)

section \<open>Every coercion factors through its collect-all run\<close>

lemma actsOn_simps [simp]:
  "actsOn onError cb []"
  "actsOn onError cb (es @ es') \<longleftrightarrow> actsOn onError cb es \<and> actsOn onError cb es'"
  by (simp_all add: actsOn_def ball_Un)

lemma actsOn_single:
  "actsOn onError cb [(path, v, e)] \<Longrightarrow>
   onError path v e (s, p) = (case cb path v e s of Inl x \<Rightarrow> Inl x | Inr s' \<Rightarrow> Inr (s', p))"
  by (simp add: actsOn_def)

lemma actsOn_Cons:
  "actsOn onError cb (r # es) \<longleftrightarrow> actsOn onError cb [r] \<and> actsOn onError cb es"
  using actsOn_simps(2) [of onError cb "[r]" es] by simp

lemma reportAll_actsOn:
  "actsOn onError cb es \<Longrightarrow>
   reportAll onError es (s, p) =
     (case reportAll cb es s of Inl x \<Rightarrow> Inl x | Inr s' \<Rightarrow> Inr (s', p))"
proof (induction es arbitrary: s)
  case Nil
  show ?case by simp
next
  case (Cons r es)
  obtain path v e where r: "r = (path, v, e)" by (cases r)
  from Cons.prems have 1: "actsOn onError cb [(path, v, e)]" and 2: "actsOn onError cb es"
    using actsOn_Cons [of onError cb r es] by (simp_all add: r)
  show ?case
    by (simp add: r actsOn_single [OF 1] Cons.IH [OF 2] split: sum.splits)
qed

lemma factorsD:
  "factors env onError cb t \<Longrightarrow> collectAll env v t path p = Inr ((r, es), p') \<Longrightarrow>
   actsOn onError cb es \<Longrightarrow>
   coerceInputValueImpl env onError v t path (s, p) =
     (case reportAll cb es s of Inl x \<Rightarrow> Inl x | Inr s' \<Rightarrow> Inr (r, (s', p')))"
  unfolding factors_def by blast

lemma coerceItems_factors:
  assumes "factors env onError cb t"
  shows "itemOutcomes env items t path p = Inr (os, p') \<Longrightarrow>
         actsOn onError cb (concat (map snd os)) \<Longrightarrow>
         coerceItems env onError items t path acc (s, p) =
           (case reportAll cb (concat (map snd os)) s of
              Inl x \<Rightarrow> Inl x
            | Inr s' \<Rightarrow> Inr (acc @ map fst os, (s', p')))"
proof (induction items arbitrary: os p acc s)
  case Nil
  then show ?case by auto
next
  case (Cons item items)
  obtain i x where item: "item = (i, x)" by (cases item)
  from Cons.prems(1) obtain o1 p1 os1 where
    c: "collectAll env x t (addPath path (Index i)) p = Inr (o1, p1)"
    and r: "itemOutcomes env items t path p1 = Inr (os1, p')"
    and os: "os = o1 # os1"
    by (auto simp: item split: sum.splits)
  obtain r1 es1 where o1: "o1 = (r1, es1)" by (cases o1)
  from Cons.prems(2) have a1: "actsOn onError cb es1"
    and a2: "actsOn onError cb (concat (map snd os1))"
    by (simp_all add: os o1)
  note f = factorsD [OF assms c [unfolded o1] a1]
  note ih = Cons.IH [OF r a2]
  show ?case
    by (simp add: item os o1 f ih reportAll_append split: sum.splits)
qed

lemma coerceFields_factors:
  assumes "\<And>f. f \<in> set fs \<Longrightarrow> factors env onError cb (type f)"
  shows "fieldOutcomes env v path fs p = Inr ((entries, reports), p') \<Longrightarrow>
         actsOn onError cb reports \<Longrightarrow>
         coerceFields env onError v fs path acc (s, p) =
           (case reportAll cb reports s of
              Inl x \<Rightarrow> Inl x
            | Inr s' \<Rightarrow> Inr (setProperties env acc entries, (s', p')))"
  using assms
proof (induction fs arbitrary: entries reports p acc s)
  case Nil
  then show ?case by auto
next
  case (Cons f fs)
  from Cons.prems(1) obtain e1 r1 p1 es2 r2 where
    fo: "fieldOutcome env v path f p = Inr ((e1, r1), p1)"
    and rest: "fieldOutcomes env v path fs p1 = Inr ((es2, r2), p')"
    and en: "entries = e1 @ es2" and re: "reports = r1 @ r2"
    by (auto split: sum.splits)
  from Cons.prems(2) have a1: "actsOn onError cb r1" and a2: "actsOn onError cb r2"
    by (simp_all add: re)
  have ih: "coerceFields env onError v fs path a (s1, p1) =
           (case reportAll cb r2 s1 of
              Inl x \<Rightarrow> Inl x
            | Inr s' \<Rightarrow> Inr (setProperties env a es2, (s', p')))" for a s1
    by (rule Cons.IH [OF rest a2]) (simp add: Cons.prems(3))
  have ff: "factors env onError cb (type f)" by (simp add: Cons.prems(3))
  show ?case
  proof (cases rule: field_cases [of v f])
    case present
    from fo present obtain r where
      c: "collectAll env (getProp v (name f)) (type f) (addPath path (Key (name f))) p
            = Inr ((r, r1), p1)"
      and e1: "e1 = [(name f, r)]"
      by (auto simp: fieldOutcome_cases(1) split: sum.splits)
    note f = factorsD [OF ff c a1]
    show ?thesis
      by (simp add: present f ih en re e1 reportAll_append split: sum.splits)
  next
    case default
    with fo have *: "e1 = [(name f, defaultValue f)]" "r1 = []" and p1: "p1 = p"
      by (simp_all add: fieldOutcome_cases(2))
    show ?thesis
      by (simp add: default ih [unfolded p1] en re * split: sum.splits)
  next
    case required
    with fo have *: "e1 = []"
      "r1 = [(pathToArray path, v, GraphQLError (notProvidedMessage env f) None)]"
      and p1: "p1 = p"
      by (simp_all add: fieldOutcome_cases(3))
    from a1 have "onError (pathToArray path) v (GraphQLError (notProvidedMessage env f) None) (s, p)
       = (case cb (pathToArray path) v (GraphQLError (notProvidedMessage env f) None) s of
            Inl x \<Rightarrow> Inl x | Inr s' \<Rightarrow> Inr (s', p))"
      unfolding * by (rule actsOn_single)
    then show ?thesis
      by (simp add: required ih [unfolded p1] en re * split: sum.splits)
  next
    case omitted
    with fo have *: "e1 = []" "r1 = []" and p1: "p1 = p"
      by (simp_all add: fieldOutcome_cases(4))
    show ?thesis
      by (simp add: omitted ih [unfolded p1] en re * split: sum.splits)
  qed
qed

lemma factors_NonNull:
  assumes "factors env onError cb t"
  shows "factors env onError cb (GraphQLNonNull t)"
  unfolding factors_def
proof (intro allI impI)
  fix v path p r es p' s
  assume c: "collectAll env v (GraphQLNonNull t) path p = Inr ((r, es), p')"
    and a: "actsOn onError cb es"
  show "coerceInputValueImpl env onError v (GraphQLNonNull t) path (s, p) =
          (case reportAll cb es s of Inl x \<Rightarrow> Inl x | Inr s' \<Rightarrow> Inr (r, (s', p')))"
  proof (cases "isNullish v")
    case True
    with c have *: "r = JUndefined"
      "es = [(pathToArray path, v, GraphQLError (nonNullMessage env (GraphQLNonNull t)) None)]"
      "p' = p"
      by (simp_all add: collectAll_NonNull)
    from a have "onError (pathToArray path) v
        (GraphQLError (nonNullMessage env (GraphQLNonNull t)) None) (s, p)
       = (case cb (pathToArray path) v (GraphQLError (nonNullMessage env (GraphQLNonNull t)) None) s of
            Inl x \<Rightarrow> Inl x | Inr s' \<Rightarrow> Inr (s', p))"
      unfolding * by (rule actsOn_single)
    then show ?thesis using True by (simp add: * split: sum.splits)
  next
    case False
    with c have "collectAll env v t path p = Inr ((r, es), p')"
      by (simp add: collectAll_NonNull)
    from factorsD [OF assms this a] False show ?thesis by simp
  qed
qed

lemma factors_List:
  assumes "factors env onError cb t"
  shows "factors env onError cb (GraphQLList t)"
  unfolding factors_def
proof (intro allI impI)
  fix v path p r es p' s
  assume c: "collectAll env v (GraphQLList t) path p = Inr ((r, es), p')"
    and a: "actsOn onError cb es"
  consider (null) "isNullish v" | (coll) "\<not> isNullish v" "isCollection env v"
    | (one) "\<not> isNullish v" "\<not> isCollection env v"
    by blast
  then show "coerceInputValueImpl env onError v (GraphQLList t) path (s, p) =
          (case reportAll cb es s of Inl x \<Rightarrow> Inl x | Inr s' \<Rightarrow> Inr (r, (s', p')))"
  proof cases
    case null
    with c show ?thesis by (simp add: collectAll_List)
  next
    case coll
    with c obtain os where o: "itemOutcomes env (forEachItems env v) t path p = Inr (os, p')"
      and r: "r = JArr (map Some (map fst os)) (arrayInherited env)"
      and es: "es = concat (map snd os)"
      by (auto simp: collectAll_List split: sum.splits)
    from coerceItems_factors [OF assms o a [unfolded es], of "[]" s] coll
    show ?thesis by (simp add: r es split: sum.splits)
  next
    case one
    with c obtain r0 where o: "collectAll env v t path p = Inr ((r0, es), p')"
      and r: "r = JArr [Some r0] (arrayInherited env)"
      by (auto simp: collectAll_List split: sum.splits)
    from factorsD [OF assms o a, of s] one
    show ?thesis by (simp add: r split: sum.splits)
  qed
qed

lemma factors_InputObject:
  assumes "\<And>f. f \<in> set fs \<Longrightarrow> factors env onError cb (type f)"
  shows "factors env onError cb (GraphQLInputObjectType n fs)"
  unfolding factors_def
proof (intro allI impI)
  fix v path p r es p' s
  assume c: "collectAll env v (GraphQLInputObjectType n fs) path p = Inr ((r, es), p')"
    and a: "actsOn onError cb es"
  consider (null) "isNullish v" | (other) "\<not> isNullish v" "\<not> isObjectLike env v"
    | (obj) "\<not> isNullish v" "isObjectLike env v"
    by blast
  then show "coerceInputValueImpl env onError v (GraphQLInputObjectType n fs) path (s, p) =
          (case reportAll cb es s of Inl x \<Rightarrow> Inl x | Inr s' \<Rightarrow> Inr (r, (s', p')))"
  proof cases
    case null
    with c show ?thesis by (simp add: collectAll_InputObject)
  next
    case other
    with c have *: "r = JUndefined"
      "es = [(pathToArray path, v, GraphQLError (notAnObjectMessage n) None)]" "p' = p"
      by (simp_all add: collectAll_InputObject)
    from a have "onError (pathToArray path) v (GraphQLError (notAnObjectMessage n) None) (s, p)
       = (case cb (pathToArray path) v (GraphQLError (notAnObjectMessage n) None) s of
            Inl x \<Rightarrow> Inl x | Inr s' \<Rightarrow> Inr (s', p))"
      unfolding * by (rule actsOn_single)
    then show ?thesis using other by (simp add: * split: sum.splits)
  next
    case obj
    with c obtain entries reports where
      o: "fieldOutcomes env v path fs p = Inr ((entries, reports), p')"
      and r: "r = setProperties env (JObj [] (objectInherited env)) entries"
      and es: "es = reports @ unknownFieldReports env v n fs path"
      by (auto simp: collectAll_InputObject split: sum.splits)
    from a have a1: "actsOn onError cb reports"
      and a2: "actsOn onError cb (unknownFieldReports env v n fs path)"
      by (simp_all add: es)
    note f = coerceFields_factors [OF assms o a1, of "JObj [] (objectInherited env)" s]
    show ?thesis
      using obj
      by (simp add: f r es checkProvidedFields_reportAll reportAll_actsOn [OF a2] reportAll_append
            split: sum.splits)
  qed
qed

lemma factors_Scalar: "factors env onError cb (GraphQLScalarType n parseValue)"
  unfolding factors_def
proof (intro allI impI)
  fix v path p r es p' s
  assume c: "collectAll env v (GraphQLScalarType n parseValue) path p = Inr ((r, es), p')"
    and a: "actsOn onError cb es"
  show "coerceInputValueImpl env onError v (GraphQLScalarType n parseValue) path (s, p) =
          (case reportAll cb es s of Inl x \<Rightarrow> Inl x | Inr s' \<Rightarrow> Inr (r, (s', p')))"
  proof (cases "isNullish v")
    case True
    with c show ?thesis by (simp add: collectAll_Scalar)
  next
    case False
    obtain out p1 where pv: "parseValue v p = (out, p1)" by (cases "parseValue v p")
    show ?thesis
    proof (cases out)
      case (Throws error)
      let ?e = "if isGraphQLError error then error
                else GraphQLError (parseErrorMessage n error) (Some error)"
      from c False pv Throws have *: "r = JUndefined" "es = [(pathToArray path, v, ?e)]" "p' = p1"
        by (simp_all add: collectAll_Scalar)
      from a have "onError (pathToArray path) v ?e (s, p1)
         = (case cb (pathToArray path) v ?e s of Inl x \<Rightarrow> Inl x | Inr s' \<Rightarrow> Inr (s', p1))"
        unfolding * by (rule actsOn_single)
      then show ?thesis using False pv Throws by (simp add: * split: sum.splits)
    next
      case (Returns y)
      show ?thesis
      proof (cases "y = JUndefined")
        case True
        let ?e = "GraphQLError (expectedTypeMessage n) None"
        from c False pv Returns True have *: "r = JUndefined" "es = [(pathToArray path, v, ?e)]"
          "p' = p1"
          by (simp_all add: collectAll_Scalar)
        from a have "onError (pathToArray path) v ?e (s, p1)
           = (case cb (pathToArray path) v ?e s of Inl x \<Rightarrow> Inl x | Inr s' \<Rightarrow> Inr (s', p1))"
          unfolding * by (rule actsOn_single)
        then show ?thesis using False pv Returns True by (simp add: * split: sum.splits)
      next
        case ny: False
        with c False pv Returns show ?thesis by (simp add: collectAll_Scalar)
      qed
    qed
  qed
qed

lemma factors_Enum: "factors env onError cb (GraphQLEnumType n vs)"
  unfolding factors_def
proof (intro allI impI)
  fix v path p r es p' s
  assume c: "collectAll env v (GraphQLEnumType n vs) path p = Inr ((r, es), p')"
    and a: "actsOn onError cb es"
  show "coerceInputValueImpl env onError v (GraphQLEnumType n vs) path (s, p) =
          (case reportAll cb es s of Inl x \<Rightarrow> Inl x | Inr s' \<Rightarrow> Inr (r, (s', p')))"
  proof (cases "isNullish v")
    case True
    with c show ?thesis by (simp add: collectAll_Enum)
  next
    case False
    show ?thesis
    proof (cases "case v of JStr str \<Rightarrow> getValue vs str | _ \<Rightarrow> None")
      case (Some ev)
      with c False show ?thesis by (simp add: collectAll_Enum)
    next
      case None
      with c False obtain str where t: "toStr env v = Inr str"
        by (cases "toStr env v") (simp_all add: collectAll_Enum)
      let ?e = "GraphQLError (enumMessage env n vs str) None"
      from c False None t have *: "r = JUndefined" "es = [(pathToArray path, v, ?e)]" "p' = p"
        by (simp_all add: collectAll_Enum)
      from a have "onError (pathToArray path) v ?e (s, p)
         = (case cb (pathToArray path) v ?e s of Inl x \<Rightarrow> Inl x | Inr s' \<Rightarrow> Inr (s', p))"
        unfolding * by (rule actsOn_single)
      then show ?thesis using False None t by (simp add: * split: sum.splits)
    qed
  qed
qed

lemma factors_all: "factors env onError cb t" and "factors env onError cb (type f)"
proof (induction t and f)
  case (GraphQLNonNull t)
  then show ?case by (rule factors_NonNull)
next
  case (GraphQLList t)
  then show ?case by (rule factors_List)
next
  case (GraphQLInputObjectType n fs)
  then show ?case by (intro factors_InputObject) simp
next
  case (GraphQLScalarType n parseValue)
  show ?case by (rule factors_Scalar)
next
  case (GraphQLEnumType n vs)
  show ?case by (rule factors_Enum)
next
  case (Field n t d)
  then show ?case by simp
qed

lemma coerceInputValueImpl_reportAll:
  assumes "collectAll env v t path p = Inr ((r, es), p')" and "actsOn onError cb es"
  shows "coerceInputValueImpl env onError v t path (s, p) =
     (case reportAll cb es s of Inl x \<Rightarrow> Inl x | Inr s' \<Rightarrow> Inr (r, (s', p')))"
  by (rule factorsD [OF factors_all(1) assms])


section \<open>Facts about the helpers\<close>

lemma testEnv_simps [simp]:
  "inspect testEnv v = (case v of JStr s \<Rightarrow> quoted s | _ \<Rightarrow> printValue v)"
  "inspectType testEnv = printType"
  "printPathArray testEnv path = concat (map printKey path)"
  "jsString testEnv = sampleString"
  "similarity testEnv input option =
     (if length option = length input \<and> take 1 option = take 1 input then Some 0 else None)"
  "renderSuggestions testEnv subMessage suggestions =
     '' Did you mean '' @ (case subMessage of None \<Rightarrow> [] | Some m \<Rightarrow> m @ '' '')
       @ concat (map quoted suggestions) @ ''?''"
  "isObjectLike testEnv v = (case v of JObj _ _ \<Rightarrow> True | JArr _ _ \<Rightarrow> True | _ \<Rightarrow> False)"
  "isCollection testEnv v = (case v of JArr _ _ \<Rightarrow> True | _ \<Rightarrow> False)"
  "forEachItems testEnv v = (case v of
        JArr elems other \<Rightarrow>
          concat (map (\<lambda>(i, e). case e of None \<Rightarrow> [] | Some x \<Rightarrow> [(i, x)]) (enumerate 0 elems))
      | _ \<Rightarrow> [])"
  "objectInherited testEnv = objectPrototype"
  "arrayInherited testEnv = arrayPrototype"
  "setProperty testEnv = sampleSetProperty"
  by (simp_all add: testEnv_def)

lemma suggestionList_set:
  "set (suggestionList env input options) = {c \<in> set options. similarity env input c \<noteq> None}"
  by (simp add: suggestionList_def)

lemma suggestionList_sorted:
  "sorted (map (\<lambda>c. case similarity env input c of None \<Rightarrow> 0 | Some rank \<Rightarrow> rank)
             (suggestionList env input options))"
  by (simp add: suggestionList_def)

lemma suggestionList_Nil:
  "suggestionList env input options = [] \<longleftrightarrow>
     \<not> (\<exists>c \<in> set options. similarity env input c \<noteq> None)"
proof -
  have "suggestionList env input options = [] \<longleftrightarrow> set (suggestionList env input options) = {}"
    by simp
  then show ?thesis
    unfolding suggestionList_set by blast
qed

lemma didYouMean_suggestionList:
  "didYouMean env subMessage (suggestionList env input options) =
     (if \<exists>c \<in> set options. similarity env input c \<noteq> None
      then renderSuggestions env subMessage (suggestionList env input options) else [])"
  unfolding didYouMean_def suggestionList_Nil by simp

lemma lookupField_None: "lookupField fs k = None \<longleftrightarrow> k \<notin> set (map name fs)"
  by (force simp: lookupField_def find_None_iff)



lemma reportAll_defaultOnError:
  "reportAll (defaultOnError env) reports w =
     (case reports of
        [] \<Rightarrow> Inr w
      | (path, invalidValue, error) # rest \<Rightarrow> defaultOnError env path invalidValue error w)"
  by (cases reports) (auto simp: defaultOnError_def Let_def)

lemma actsOn_defaultOnError: "actsOn (defaultOnError env) (defaultOnError env) reports"
  by (auto simp: actsOn_def defaultOnError_def Let_def)

lemma setProp_fresh: "k \<notin> fst ` set acc \<Longrightarrow> setProp acc k v = acc @ [(k, v)]"
  by (induction acc) auto

lemma setProps_fresh:
  "distinct (map fst acc @ map fst entries) \<Longrightarrow> setProps acc entries = acc @ entries"
proof (induction entries arbitrary: acc)
  case Nil
  show ?case by (simp add: setProps_def)
next
  case (Cons e entries)
  obtain k v where e: "e = (k, v)" by (cases e)
  from Cons.prems e have k: "k \<notin> fst ` set acc" by auto
  from Cons.prems e have "distinct (map fst (acc @ [(k, v)]) @ map fst entries)" by auto
  then have "setProps (acc @ [(k, v)]) entries = (acc @ [(k, v)]) @ entries"
    by (rule Cons.IH)
  with k e show ?case
    by (simp add: setProps_def setProp_fresh)
qed

lemma setProperties_writesOwn:
  "\<forall>k \<in> fst ` set entries. writesOwn env k \<Longrightarrow>
     setProperties env (JObj own (objectInherited env)) entries =
       JObj (setProps own entries) (objectInherited env)"
proof (induction entries arbitrary: own)
  case Nil
  show ?case by (simp add: setProps_def)
next
  case (Cons e entries)
  obtain k v where e: "e = (k, v)" by (cases e)
  from Cons.prems e have "writesOwn env k" by simp
  then have w: "setProperty env (JObj own (objectInherited env)) k v =
      JObj (setProp own k v) (objectInherited env)"
    by (simp add: writesOwn_def)
  from Cons.prems have "\<forall>k \<in> fst ` set entries. writesOwn env k" by simp
  then have "setProperties env (JObj (setProp own k v) (objectInherited env)) entries =
       JObj (setProps (setProp own k v) entries) (objectInherited env)"
    by (rule Cons.IH)
  with w e show ?case
    by (simp add: setProps_def)
qed

lemma setProperties_fresh:
  assumes "\<forall>k \<in> fst ` set entries. writesOwn env k" and "distinct (map fst entries)"
  shows "setProperties env (JObj [] (objectInherited env)) entries =
           JObj entries (objectInherited env)"
  using setProperties_writesOwn [OF assms(1), of "[]"] setProps_fresh [of "[]" entries] assms(2)
  by simp

lemma writtenFields_simps [simp]:
  "writtenFields v [] = []"
  "writtenFields v (f # fs) =
     (if getProp v (name f) \<noteq> JUndefined \<or> defaultValue f \<noteq> JUndefined
      then f # writtenFields v fs else writtenFields v fs)"
  by (simp_all add: writtenFields_def)

lemma writtenFields_subset: "set (writtenFields v fs) \<subseteq> set fs"
  by (auto simp: writtenFields_def)

lemma writtenFields_distinct:
  "distinct (map name fs) \<Longrightarrow> distinct (map name (writtenFields v fs))"
  by (simp add: writtenFields_def distinct_map_filter)

lemma coerceFields_entries:
  assumes "coerceFields env onError v fs path acc w = Inr (r, w')"
  shows "\<exists>entries. r = setProperties env acc entries
           \<and> map fst entries = map name (writtenFields v fs)
           \<and> (\<forall>f \<in> set fs. getProp v (name f) = JUndefined \<and> defaultValue f \<noteq> JUndefined \<longrightarrow>
                 (name f, defaultValue f) \<in> set entries)"
  using assms
proof (induction fs arbitrary: acc w)
  case Nil
  then show ?case by simp
next
  case (Cons f fs)
  show ?case
  proof (cases rule: field_cases [of v f])
    case present
    from Cons.prems present obtain cf w1 where
      rest: "coerceFields env onError v fs path (setProperty env acc (name f) cf) w1 = Inr (r, w')"
      by (auto split: sum.splits)
    from Cons.IH [OF rest] obtain entries where
      e: "r = setProperties env (setProperty env acc (name f) cf) entries"
        "map fst entries = map name (writtenFields v fs)"
        "\<forall>g \<in> set fs. getProp v (name g) = JUndefined \<and> defaultValue g \<noteq> JUndefined \<longrightarrow>
                 (name g, defaultValue g) \<in> set entries"
      by blast
    show ?thesis
      by (rule exI [of _ "(name f, cf) # entries"]) (use e present in auto)
  next
    case default
    from Cons.prems default have
      rest: "coerceFields env onError v fs path (setProperty env acc (name f) (defaultValue f)) w
               = Inr (r, w')"
      by simp
    from Cons.IH [OF rest] obtain entries where
      e: "r = setProperties env (setProperty env acc (name f) (defaultValue f)) entries"
        "map fst entries = map name (writtenFields v fs)"
        "\<forall>g \<in> set fs. getProp v (name g) = JUndefined \<and> defaultValue g \<noteq> JUndefined \<longrightarrow>
                 (name g, defaultValue g) \<in> set entries"
      by blast
    show ?thesis
      by (rule exI [of _ "(name f, defaultValue f) # entries"]) (use e default in auto)
  next
    case required
    from Cons.prems required obtain w1 where
      rest: "coerceFields env onError v fs path acc w1 = Inr (r, w')"
      by (auto split: sum.splits)
    from Cons.IH [OF rest] required show ?thesis by auto
  next
    case omitted
    from Cons.prems omitted have
      rest: "coerceFields env onError v fs path acc w = Inr (r, w')"
      by simp
    from Cons.IH [OF rest] omitted show ?thesis by auto
  qed
qed

lemma fieldOutcomes_entries:
  assumes "fieldOutcomes env v path fs p = Inr ((entries, reports), p')"
  shows "map fst entries = map name (writtenFields v fs)"
  using assms
proof (induction fs arbitrary: entries reports p)
  case Nil
  then show ?case by simp
next
  case (Cons f fs)
  from Cons.prems obtain e1 r1 p1 e2 r2 where
    f: "fieldOutcome env v path f p = Inr ((e1, r1), p1)"
    and rest: "fieldOutcomes env v path fs p1 = Inr ((e2, r2), p')"
    and es: "entries = e1 @ e2"
    by (auto split: sum.splits)
  from f have "map fst e1 = (if getProp v (name f) \<noteq> JUndefined \<or> defaultValue f \<noteq> JUndefined
      then [name f] else [])"
    by (auto simp: fieldOutcome_def split: if_splits sum.splits)
  with Cons.IH [OF rest] es show ?case by simp
qed

lemma itemOutcomes_length:
  "itemOutcomes env items t path p = Inr (outcomes, p') \<Longrightarrow> length outcomes = length items"
proof (induction items arbitrary: outcomes p)
  case Nil
  then show ?case by simp
next
  case (Cons item items)
  obtain i x where item: "item = (i, x)" by (cases item)
  from Cons.prems item obtain o1 p1 os where
    rest: "itemOutcomes env items t path p1 = Inr (os, p')" and os: "outcomes = o1 # os"
    by (auto split: sum.splits)
  from Cons.IH [OF rest] os show ?case by simp
qed

lemma setProp_keys: "fst ` set (setProp acc k v) = insert k (fst ` set acc)"
  by (induction acc) auto

lemma setProperties_keys:
  "keepsKeys env \<Longrightarrow>
     set (objectKeys (setProperties env object entries)) \<subseteq> set (objectKeys object) \<union> fst ` set entries"
proof (induction entries arbitrary: object)
  case Nil
  show ?case by simp
next
  case (Cons e entries)
  obtain k v where e: "e = (k, v)" by (cases e)
  from Cons.prems have "set (objectKeys (setProperty env object k v)) \<subseteq> insert k (set (objectKeys object))"
    unfolding keepsKeys_def by blast
  with Cons.IH [OF Cons.prems, of "setProperty env object k v"] e show ?case
    by auto
qed

lemma keepsKeys_testEnv: "keepsKeys testEnv"
  unfolding keepsKeys_def
  by (auto simp: sampleSetProperty_def objectKeys_def setProp_keys split: jsval.splits)

lemma itemOutcomes_states:
  "itemOutcomes env items t path p = Inr (outcomes, p') \<Longrightarrow>
     \<exists>ps. length ps = Suc (length items) \<and> ps ! 0 = p \<and> ps ! length items = p'
       \<and> (\<forall>i < length items.
             collectAll env (snd (items ! i)) t (addPath path (Index (fst (items ! i)))) (ps ! i)
               = Inr (outcomes ! i, ps ! Suc i))"
proof (induction items arbitrary: outcomes p)
  case Nil
  then show ?case by (auto intro: exI [of _ "[p]"])
next
  case (Cons item items)
  obtain j x where item: "item = (j, x)" by (cases item)
  from Cons.prems item obtain o1 p1 os where
    first: "collectAll env x t (addPath path (Index j)) p = Inr (o1, p1)"
    and rest: "itemOutcomes env items t path p1 = Inr (os, p')" and os: "outcomes = o1 # os"
    by (auto split: sum.splits)
  from Cons.IH [OF rest] obtain ps where
    ps: "length ps = Suc (length items)" "ps ! 0 = p1" "ps ! length items = p'"
      "\<forall>i < length items.
             collectAll env (snd (items ! i)) t (addPath path (Index (fst (items ! i)))) (ps ! i)
               = Inr (os ! i, ps ! Suc i)"
    by blast
  have "\<forall>i < length (item # items).
             collectAll env (snd ((item # items) ! i)) t
                 (addPath path (Index (fst ((item # items) ! i)))) ((p # ps) ! i)
               = Inr (outcomes ! i, (p # ps) ! Suc i)"
  proof (intro allI impI)
    fix i assume i: "i < length (item # items)"
    show "collectAll env (snd ((item # items) ! i)) t
                 (addPath path (Index (fst ((item # items) ! i)))) ((p # ps) ! i)
               = Inr (outcomes ! i, (p # ps) ! Suc i)"
    proof (cases i)
      case 0
      with first ps(2) item os show ?thesis by simp
    next
      case (Suc k)
      with i ps(4) os show ?thesis by simp
    qed
  qed
  with ps(1,3) show ?case
    by (intro exI [of _ "p # ps"]) simp
qed

section \<open>Idempotence of the coercion\<close>














section \<open>The claims\<close>

subsection \<open>Non-null types\<close>

text \<open>
  Claim C2. For every type \<open>t\<close>: coercing \<open>null\<close> or \<open>undefined\<close> against
  \<open>GraphQLNonNull t\<close> calls \<open>onError\<close> exactly once, with the current path, the
  offending value and the error ``Expected non-nullable type ... not to be null.'', and
  returns \<open>undefined\<close> if the callback returns; coercing any other value is coercing it
  against \<open>t\<close> at the same path.
\<close>
theorem nonNull_handling:
  "(isNullish v \<longrightarrow>
      coerceInputValueImpl env onError v (GraphQLNonNull t) path s =
        returning (onError (pathToArray path) v
                     (GraphQLError (''Expected non-nullable type '' @ quoted (inspectType env (GraphQLNonNull t))
                                      @ '' not to be null.'') None) s)
          JUndefined)
   \<and> (\<not> isNullish v \<longrightarrow>
      coerceInputValueImpl env onError v (GraphQLNonNull t) path s =
        coerceInputValueImpl env onError v t path s)"
  by (simp add: nonNullMessage_def returning_def)

theorem nonNull_handling_witness:
  "coerceInputValueImpl testEnv collectErrors JNull (GraphQLNonNull GraphQLInt)
       (addPath None (Key ''id'')) ([], ())
     = Inr (JUndefined, ([([Key ''id''], JNull,
              GraphQLError (''Expected non-nullable type '' @ quoted ''Int!'' @ '' not to be null.'') None)], ()))
   \<and> coerceInputValueImpl testEnv collectErrors (JNum 5) (GraphQLNonNull GraphQLInt)
       (addPath None (Key ''id'')) ([], ())
     = Inr (JNum 5, ([], ()))"
  using nonNull_handling [of JNull testEnv collectErrors GraphQLInt "addPath None (Key ''id'')" "([], ())"]
    nonNull_handling [of "JNum 5" testEnv collectErrors GraphQLInt "addPath None (Key ''id'')" "([], ())"]
  by (simp add: isNullish_def GraphQLInt_def parseInt_def pathToArray_def addPath_def returning_def)

subsection \<open>Null and absent values\<close>

text \<open>
  Claim C7. For every type that is not a non-null type, coercing \<open>null\<close> or
  \<open>undefined\<close> returns \<open>null\<close>, and the callback is not called: the result does not
  depend on the callback and the caller's state is unchanged.
\<close>
theorem null_passthrough:
  "\<not> isNonNullType t \<Longrightarrow> v = JNull \<or> v = JUndefined \<Longrightarrow>
     coerceInputValueImpl env onError v t path s = Inr (JNull, s)"
  by (cases t) (auto simp: isNullish_def)

theorem null_passthrough_witness:
  "coerceInputValue testEnv JUndefined (GraphQLList (GraphQLNonNull GraphQLInt)) None ((), ())
     = Inr (JNull, ((), ()))
   \<and> coerceInputValue testEnv JNull GraphQLInt None ((), ()) = Inr (JNull, ((), ()))"
  using null_passthrough [of "GraphQLList (GraphQLNonNull GraphQLInt)" JUndefined testEnv
      "defaultOnError testEnv" None "((), ())"]
    null_passthrough [of "GraphQLInt" JNull testEnv "defaultOnError testEnv" None "((), ())"]
  by (simp add: coerceInputValue_def GraphQLInt_def)

subsection \<open>Unknown fields\<close>

text \<open>
  Claim C5. For every object-like value coerced against an input-object type:
  \<^item> the unknown-field errors are reported after the loop over the declared fields has
    finished, so after every field-presence error (and every error of a field's own
    coercion) of this object: a caller who collects the errors finds those of the
    declared fields, in declaration order, and then the unknown-field errors;
  \<^item> there is exactly one unknown-field error for each key of the input value that
    names no declared field, in the order of the keys of the input value;
  \<^item> its message ends with the rendering of the suggestions for the key exactly when a
    declared field name clears the similarity threshold, and the suggestions are the
    names of all declared fields that clear it, ranked;
  \<^item> the result is built by assignments under names of declared fields only, so that,
    an assignment adding no own key but its own, every key of the result names a
    declared field: an unknown key is never copied.
\<close>
theorem unknown_fields:
  assumes "\<not> isNullish v" and "isObjectLike env v"
  shows "coerceInputValueImpl env onError v (GraphQLInputObjectType typeName fieldDefs) path s =
           (case coerceFields env onError v fieldDefs path (JObj [] (objectInherited env)) s of
              Inl x \<Rightarrow> Inl x
            | Inr (coercedValue, s') \<Rightarrow>
                returning (reportAll onError (unknownFieldReports env v typeName fieldDefs path) s')
                  coercedValue)
       \<and> coerceInputValueImpl env collectErrors v (GraphQLInputObjectType typeName fieldDefs) path
             (errors, p) =
           (case fieldOutcomes env v path fieldDefs p of
              Inl x \<Rightarrow> Inl x
            | Inr ((entries, reports), p') \<Rightarrow>
                Inr (setProperties env (JObj [] (objectInherited env)) entries,
                     (errors @ reports @ unknownFieldReports env v typeName fieldDefs path, p')))
       \<and> unknownFieldReports env v typeName fieldDefs path =
           map (\<lambda>fieldName. (pathToArray path, v,
                  GraphQLError (''Field '' @ quoted fieldName @ '' is not defined by type ''
                      @ quoted typeName @ ''.''
                      @ (if \<exists>c \<in> set (map name fieldDefs). similarity env fieldName c \<noteq> None
                         then renderSuggestions env None
                                (suggestionList env fieldName (map name fieldDefs))
                         else []))
                    None))
             (filter (\<lambda>fieldName. fieldName \<notin> set (map name fieldDefs)) (objectKeys v))
       \<and> set (suggestionList env k (map name fieldDefs)) =
           {c \<in> set (map name fieldDefs). similarity env k c \<noteq> None}
       \<and> sorted (map (\<lambda>c. case similarity env k c of None \<Rightarrow> 0 | Some rank \<Rightarrow> rank)
                   (suggestionList env k (map name fieldDefs)))
       \<and> (\<forall>coercedValue s'.
             coerceFields env onError v fieldDefs path (JObj [] (objectInherited env)) s
               = Inr (coercedValue, s') \<longrightarrow>
             (\<exists>entries. coercedValue = setProperties env (JObj [] (objectInherited env)) entries
                \<and> set (map fst entries) \<subseteq> set (map name fieldDefs))
             \<and> (keepsKeys env \<longrightarrow> set (objectKeys coercedValue) \<subseteq> set (map name fieldDefs)))"
proof (intro conjI allI impI)
  show "coerceInputValueImpl env onError v (GraphQLInputObjectType typeName fieldDefs) path s =
           (case coerceFields env onError v fieldDefs path (JObj [] (objectInherited env)) s of
              Inl x \<Rightarrow> Inl x
            | Inr (coercedValue, s') \<Rightarrow>
                returning (reportAll onError (unknownFieldReports env v typeName fieldDefs path) s')
                  coercedValue)"
    using assms
    by (simp add: checkProvidedFields_reportAll returning_def unknownFieldReports_def
          split: sum.splits)
next
  show "coerceInputValueImpl env collectErrors v (GraphQLInputObjectType typeName fieldDefs) path
             (errors, p) =
           (case fieldOutcomes env v path fieldDefs p of
              Inl x \<Rightarrow> Inl x
            | Inr ((entries, reports), p') \<Rightarrow>
                Inr (setProperties env (JObj [] (objectInherited env)) entries,
                     (errors @ reports @ unknownFieldReports env v typeName fieldDefs path, p')))"
    using assms
    by (simp only: collectAll_run collectAll_InputObject) (simp split: sum.splits)
next
  show "unknownFieldReports env v typeName fieldDefs path =
           map (\<lambda>fieldName. (pathToArray path, v,
                  GraphQLError (''Field '' @ quoted fieldName @ '' is not defined by type ''
                      @ quoted typeName @ ''.''
                      @ (if \<exists>c \<in> set (map name fieldDefs). similarity env fieldName c \<noteq> None
                         then renderSuggestions env None
                                (suggestionList env fieldName (map name fieldDefs))
                         else []))
                    None))
             (filter (\<lambda>fieldName. fieldName \<notin> set (map name fieldDefs)) (objectKeys v))"
    by (simp add: unknownFieldReports_def notDefinedMessage_def lookupField_None
          didYouMean_suggestionList)
next
  show "set (suggestionList env k (map name fieldDefs)) =
           {c \<in> set (map name fieldDefs). similarity env k c \<noteq> None}"
    by (rule suggestionList_set)
next
  show "sorted (map (\<lambda>c. case similarity env k c of None \<Rightarrow> 0 | Some rank \<Rightarrow> rank)
                   (suggestionList env k (map name fieldDefs)))"
    by (rule suggestionList_sorted)
next
  fix coercedValue s'
  assume run: "coerceFields env onError v fieldDefs path (JObj [] (objectInherited env)) s
               = Inr (coercedValue, s')"
  from coerceFields_entries [OF run] obtain entries where
    e: "coercedValue = setProperties env (JObj [] (objectInherited env)) entries"
      "map fst entries = map name (writtenFields v fieldDefs)"
    by blast
  from e(2) have sub: "set (map fst entries) \<subseteq> set (map name fieldDefs)"
    using writtenFields_subset [of v fieldDefs] by auto
  with e(1) show "\<exists>entries. coercedValue = setProperties env (JObj [] (objectInherited env)) entries
                \<and> set (map fst entries) \<subseteq> set (map name fieldDefs)"
    by blast
  assume "keepsKeys env"
  from setProperties_keys [OF this, of "JObj [] (objectInherited env)" entries] e(1) sub
  show "set (objectKeys coercedValue) \<subseteq> set (map name fieldDefs)"
    by (auto simp: objectKeys_def)
qed

theorem unknown_fields_witness:
  "coerceInputValueImpl testEnv collectErrors
       (JObj [(''naem'', JNum 1), (''zzz'', JNum 2)] objectPrototype)
       (GraphQLInputObjectType ''T'' nameFields) None ([], ())
     = Inr (JObj [] objectPrototype,
            ([([], JObj [(''naem'', JNum 1), (''zzz'', JNum 2)] objectPrototype,
               GraphQLError (''Field '' @ quoted ''name'' @ '' of required type '' @ quoted ''Int!''
                 @ '' was not provided.'') None),
              ([], JObj [(''naem'', JNum 1), (''zzz'', JNum 2)] objectPrototype,
               GraphQLError (''Field '' @ quoted ''naem'' @ '' is not defined by type '' @ quoted ''T''
                 @ ''.'' @ '' Did you mean '' @ quoted ''name'' @ ''?'') None),
              ([], JObj [(''naem'', JNum 1), (''zzz'', JNum 2)] objectPrototype,
               GraphQLError (''Field '' @ quoted ''zzz'' @ '' is not defined by type '' @ quoted ''T''
                 @ ''.'') None)], ()))
   \<and> set (objectKeys (JObj [] objectPrototype)) \<subseteq> set (map name (nameFields :: unit field list))"
proof -
  let ?v = "JObj [(''naem'', JNum 1), (''zzz'', JNum 2)] objectPrototype"
  let ?env = "testEnv :: (unit, jserror) env"
  let ?report = "([], ?v, GraphQLError (''Field '' @ quoted ''name'' @ '' of required type ''
                 @ quoted ''Int!'' @ '' was not provided.'') None)"
  have h: "\<not> isNullish ?v" "isObjectLike ?env ?v"
    by (simp_all add: isNullish_def)
  note t = unknown_fields [OF h, of collectErrors "''T''" nameFields None "([], ())"]
  have u: "unknownFieldReports ?env ?v ''T'' nameFields None =
      [([], ?v, GraphQLError (''Field '' @ quoted ''naem'' @ '' is not defined by type ''
            @ quoted ''T'' @ ''.'' @ '' Did you mean '' @ quoted ''name'' @ ''?'') None),
       ([], ?v, GraphQLError (''Field '' @ quoted ''zzz'' @ '' is not defined by type ''
            @ quoted ''T'' @ ''.'') None)]"
    by (simp only: t [THEN conjunct2, THEN conjunct2, THEN conjunct1])
       (simp add: pathToArray_def nameFields_def objectKeys_def suggestionList_def)
  have f: "coerceFields ?env collectErrors ?v nameFields None (JObj [] (objectInherited ?env)) ([], ())
             = Inr (JObj [] objectPrototype, ([?report], ()))"
    by (simp add: nameFields_def GraphQLInt_def getProp_def objectPrototype_def objectMembers_def
          notProvidedMessage_def pathToArray_def)
  have 1: "coerceInputValueImpl ?env collectErrors ?v (GraphQLInputObjectType ''T'' nameFields) None
             ([], ()) =
           (case coerceFields ?env collectErrors ?v nameFields None (JObj [] (objectInherited ?env))
                   ([], ()) of
              Inl x \<Rightarrow> Inl x
            | Inr (coercedValue, s') \<Rightarrow>
                returning (reportAll collectErrors (unknownFieldReports ?env ?v ''T'' nameFields None) s')
                  coercedValue)"
    by (rule t [THEN conjunct1])
  have 2: "set (objectKeys (JObj [] objectPrototype)) \<subseteq> set (map name (nameFields :: unit field list))"
    using t [THEN conjunct2, THEN conjunct2, THEN conjunct2, THEN conjunct2, THEN conjunct2,
        rule_format, OF f, THEN conjunct2, rule_format, OF keepsKeys_testEnv] .
  show ?thesis
    by (rule conjI [OF _ 2]) (simp only: 1 u f, simp)
qed

subsection \<open>Input-object types\<close>

text \<open>
  Claim C1, amended: the claim holds for every value that is neither \<open>null\<close> nor
  \<open>undefined\<close> (such a value is returned as \<open>null\<close> before the input-object case is
  reached, as the counterexample below shows). For every input-object type and
  every such value: if the value is not object-like, \<open>onError\<close> is called exactly once,
  with the error ``Expected type ... to be an object.'', and the result is \<open>undefined\<close>.
  Otherwise the result is the fresh object to which the entries of the declared fields
  were assigned in declaration order, where an absent field with a default contributes
  the default, an absent field without a default contributes no entry (and an error,
  when its type is non-null), and a present field contributes the coercion of its value
  at the path extended by the field name, under its name, whatever that coercion
  returned; a field is absent when reading its name from the input value, inherited
  members included, gives \<open>undefined\<close>. The errors are those of the fields, in
  declaration order, followed by the unknown-field errors. The names of the entries are
  those of the fields that the input value has or that declare a default, in
  declaration order; when the field names are distinct and the assignment at each
  writes an own property, the own properties of the result are exactly the entries.
\<close>
theorem inputObject_coercion:
  assumes "\<not> isNullish v"
  shows "(\<not> isObjectLike env v \<longrightarrow>
            coerceInputValueImpl env onError v (GraphQLInputObjectType typeName fieldDefs) path s =
              returning
                (onError (pathToArray path) v
                   (GraphQLError (''Expected type '' @ quoted typeName @ '' to be an object.'') None) s)
                JUndefined)
       \<and> (isObjectLike env v \<longrightarrow>
            coerceInputValueImpl env collectErrors v (GraphQLInputObjectType typeName fieldDefs) path
                (errors, p) =
              (case fieldOutcomes env v path fieldDefs p of
                 Inl x \<Rightarrow> Inl x
               | Inr ((entries, reports), p') \<Rightarrow>
                   Inr (setProperties env (JObj [] (objectInherited env)) entries,
                        (errors @ reports @ unknownFieldReports env v typeName fieldDefs path, p'))))
       \<and> (\<forall>entries reports p'.
             fieldOutcomes env v path fieldDefs p = Inr ((entries, reports), p') \<longrightarrow>
             map fst entries = map name (writtenFields v fieldDefs)
             \<and> (distinct (map name fieldDefs) \<and> (\<forall>f \<in> set fieldDefs. writesOwn env (name f)) \<longrightarrow>
                  setProperties env (JObj [] (objectInherited env)) entries =
                    JObj entries (objectInherited env)))"
proof (intro conjI impI allI)
  assume "\<not> isObjectLike env v"
  with assms show "coerceInputValueImpl env onError v (GraphQLInputObjectType typeName fieldDefs) path s =
              returning
                (onError (pathToArray path) v
                   (GraphQLError (''Expected type '' @ quoted typeName @ '' to be an object.'') None) s)
                JUndefined"
    by (simp add: returning_def notAnObjectMessage_def)
next
  assume "isObjectLike env v"
  with assms show "coerceInputValueImpl env collectErrors v (GraphQLInputObjectType typeName fieldDefs) path
                (errors, p) =
              (case fieldOutcomes env v path fieldDefs p of
                 Inl x \<Rightarrow> Inl x
               | Inr ((entries, reports), p') \<Rightarrow>
                   Inr (setProperties env (JObj [] (objectInherited env)) entries,
                        (errors @ reports @ unknownFieldReports env v typeName fieldDefs path, p')))"
    by (simp only: collectAll_run collectAll_InputObject) (simp split: sum.splits)
next
  fix entries reports p'
  assume fo: "fieldOutcomes env v path fieldDefs p = Inr ((entries, reports), p')"
  then show keys: "map fst entries = map name (writtenFields v fieldDefs)"
    by (rule fieldOutcomes_entries)
  assume a: "distinct (map name fieldDefs) \<and> (\<forall>f \<in> set fieldDefs. writesOwn env (name f))"
  from a keys have "distinct (map fst entries)"
    by (simp add: writtenFields_distinct)
  moreover from a keys have "\<forall>k \<in> fst ` set entries. writesOwn env k"
    using writtenFields_subset [of v fieldDefs]
    by (metis (no_types, lifting) image_iff list.set_map subsetD)
  ultimately show "setProperties env (JObj [] (objectInherited env)) entries =
                    JObj entries (objectInherited env)"
    by (simp add: setProperties_fresh)
qed

theorem inputObject_coercion_counterexample:
  "\<not> isObjectLike testEnv JNull
   \<and> coerceInputValueImpl testEnv collectErrors JNull taggedType None ([], ()) = Inr (JNull, ([], ()))"
  by (simp add: isNullish_def taggedType_def)

theorem inputObject_coercion_witness:
  "coerceInputValueImpl testEnv collectErrors (JObj [(''count'', JStr ''x'')] objectPrototype)
       taggedType None ([], ())
     = Inr (JObj [(''tag'', JStr ''PURPLE''), (''count'', JUndefined)] objectPrototype,
            ([([], JObj [(''count'', JStr ''x'')] objectPrototype,
               GraphQLError (''Field '' @ quoted ''id'' @ '' of required type '' @ quoted ''Int!''
                 @ '' was not provided.'') None),
              ([Key ''count''], JStr ''x'',
               GraphQLError (''Expected type '' @ quoted ''Int'' @ ''. not an integer'')
                 (Some (Error ''not an integer'')))], ()))
   \<and> coerceInputValueImpl testEnv collectErrors (JNum 3) taggedType None ([], ())
     = Inr (JUndefined, ([([], JNum 3,
              GraphQLError (''Expected type '' @ quoted ''Tagged'' @ '' to be an object.'') None)], ()))
   \<and> coerceInputValueImpl testEnv collectErrors (JObj [] objectPrototype)
       (GraphQLInputObjectType ''P'' [Field ''constructor'' GraphQLInt JUndefined]) None ([], ())
     = Inr (JObj [(''constructor'', JUndefined)] objectPrototype,
            ([([Key ''constructor''], JFun ''Object'',
               GraphQLError (''Expected type '' @ quoted ''Int'' @ ''. not an integer'')
                 (Some (Error ''not an integer'')))], ()))"
proof -
  let ?env = "testEnv :: (unit, jserror) env"
  let ?v = "JObj [(''count'', JStr ''x'')] objectPrototype"
  let ?w = "JObj [] objectPrototype"
  let ?fs = "[Field ''constructor'' GraphQLInt JUndefined] :: unit field list"
  let ?e = "GraphQLError (''Expected type '' @ quoted ''Int'' @ ''. not an integer'')
                 (Some (Error ''not an integer''))"
  have h: "\<not> isNullish ?v" "\<not> isNullish (JNum 3)" "\<not> isNullish ?w"
    by (simp_all add: isNullish_def)
  have o: "isObjectLike ?env ?v" "\<not> isObjectLike ?env (JNum 3)" "isObjectLike ?env ?w"
    by simp_all
  have d: "distinct (map name (taggedFields :: unit field list))
             \<and> (\<forall>f \<in> set (taggedFields :: unit field list). writesOwn ?env (name f))"
    "distinct (map name ?fs) \<and> (\<forall>f \<in> set ?fs. writesOwn ?env (name f))"
    by (simp_all add: taggedFields_def writesOwn_def sampleSetProperty_def)
  have fo: "fieldOutcomes ?env ?v None taggedFields () =
      Inr (([(''tag'', JStr ''PURPLE''), (''count'', JUndefined)],
            [([], ?v, GraphQLError (''Field '' @ quoted ''id'' @ '' of required type ''
                 @ quoted ''Int!'' @ '' was not provided.'') None),
             ([Key ''count''], JStr ''x'', ?e)]), ())"
    by (simp add: taggedFields_def fieldOutcome_def collectAll_Scalar GraphQLInt_def parseInt_def
          isNullish_def pathToArray_def addPath_def parseErrorMessage_def colorType_def
          getProp_def objectPrototype_def objectMembers_def notProvidedMessage_def)
  have fo': "fieldOutcomes ?env ?w None ?fs () =
      Inr (([(''constructor'', JUndefined)], [([Key ''constructor''], JFun ''Object'', ?e)]), ())"
    by (simp add: fieldOutcome_def collectAll_Scalar GraphQLInt_def parseInt_def
          isNullish_def pathToArray_def addPath_def parseErrorMessage_def
          getProp_def objectPrototype_def objectMembers_def)
  have u: "unknownFieldReports ?env ?v ''Tagged'' taggedFields None = []"
    "unknownFieldReports ?env ?w ''P'' ?fs None = []"
    by (simp_all add: unknownFieldReports_def taggedFields_def lookupField_def objectKeys_def)
  note t = inputObject_coercion [OF h(1), where env = ?env and typeName = "''Tagged''"
      and fieldDefs = taggedFields and path = None and errors = "[]" and p = "()"]
  note t1 = t [THEN conjunct2, THEN conjunct1, rule_format, OF o(1)]
    and t2 = t [THEN conjunct2, THEN conjunct2, rule_format, OF fo, THEN conjunct2, rule_format, OF d(1)]
  note t' = inputObject_coercion [OF h(2), where env = ?env and typeName = "''Tagged''"
      and fieldDefs = taggedFields and path = None and s = "([], ())" and onError = collectErrors,
      THEN conjunct1, rule_format, OF o(2)]
  note c = inputObject_coercion [OF h(3), where env = ?env and typeName = "''P''"
      and fieldDefs = ?fs and path = None and errors = "[]" and p = "()"]
  note c1 = c [THEN conjunct2, THEN conjunct1, rule_format, OF o(3)]
    and c2 = c [THEN conjunct2, THEN conjunct2, rule_format, OF fo', THEN conjunct2, rule_format, OF d(2)]
  have 1: "coerceInputValueImpl ?env collectErrors ?v taggedType None ([], ())
     = Inr (JObj [(''tag'', JStr ''PURPLE''), (''count'', JUndefined)] objectPrototype,
            ([([], ?v, GraphQLError (''Field '' @ quoted ''id'' @ '' of required type ''
                 @ quoted ''Int!'' @ '' was not provided.'') None),
              ([Key ''count''], JStr ''x'', ?e)], ()))"
    unfolding taggedType_def
    by (simp only: t1 fo u) (simp only: t2 sum.case prod.case, simp)
  have 2: "coerceInputValueImpl ?env collectErrors (JNum 3) taggedType None ([], ())
     = Inr (JUndefined, ([([], JNum 3,
              GraphQLError (''Expected type '' @ quoted ''Tagged'' @ '' to be an object.'') None)], ()))"
    unfolding taggedType_def
    by (simp only: t') (simp add: pathToArray_def)
  have 3: "coerceInputValueImpl ?env collectErrors ?w (GraphQLInputObjectType ''P'' ?fs) None ([], ())
     = Inr (JObj [(''constructor'', JUndefined)] objectPrototype,
            ([([Key ''constructor''], JFun ''Object'', ?e)], ()))"
    by (simp only: c1 fo' u) (simp only: c2 sum.case prod.case, simp)
  from 1 2 3 show ?thesis by (intro conjI)
qed

subsection \<open>Default values\<close>




subsection \<open>List types\<close>

text \<open>
  Claim C3, amended: the claim holds for every value that is neither \<open>null\<close> nor
  \<open>undefined\<close> (such a value is returned as \<open>null\<close>, not wrapped, as the
  counterexample below shows). For every list type and every other value: if the
  value is a collection, the result is an array with exactly one entry for each element
  that \<open>forEach\<close> visits, in order, each entry being the coercion of that element
  against the item type at the path extended by the index that \<open>forEach\<close> passes with
  it (its position in the collection, counted from 0; the holes of a sparse array are
  not visited), in the state of the scalars that the coercion of the element before
  left; \<open>undefined\<close> entries of failed elements are kept, and the errors are those of
  the elements, in order. If the value is not a collection, the result is the
  one-element array of the coercion of the value against the item type at the same
  path.
\<close>
theorem list_handling:
  assumes "\<not> isNullish v"
  shows "(isCollection env v \<longrightarrow>
            coerceInputValueImpl env collectErrors v (GraphQLList itemType) path (errors, p) =
              (case itemOutcomes env (forEachItems env v) itemType path p of
                 Inl x \<Rightarrow> Inl x
               | Inr (outcomes, p') \<Rightarrow>
                   Inr (JArr (map Some (map fst outcomes)) (arrayInherited env),
                        (errors @ concat (map snd outcomes), p')))
            \<and> (\<forall>outcomes p'.
                  itemOutcomes env (forEachItems env v) itemType path p = Inr (outcomes, p') \<longrightarrow>
                  length outcomes = length (forEachItems env v)
                  \<and> (\<exists>ps. length ps = Suc (length (forEachItems env v)) \<and> ps ! 0 = p
                        \<and> ps ! length (forEachItems env v) = p'
                        \<and> (\<forall>i < length (forEachItems env v).
                              collectAll env (snd (forEachItems env v ! i)) itemType
                                  (addPath path (Index (fst (forEachItems env v ! i)))) (ps ! i)
                                = Inr (outcomes ! i, ps ! Suc i)))))
       \<and> (\<not> isCollection env v \<longrightarrow>
            coerceInputValueImpl env onError v (GraphQLList itemType) path s =
              (case coerceInputValueImpl env onError v itemType path s of
                 Inl x \<Rightarrow> Inl x
               | Inr (coercedItem, s') \<Rightarrow> Inr (JArr [Some coercedItem] (arrayInherited env), s')))"
proof (intro conjI impI allI)
  assume "isCollection env v"
  with assms show "coerceInputValueImpl env collectErrors v (GraphQLList itemType) path (errors, p) =
              (case itemOutcomes env (forEachItems env v) itemType path p of
                 Inl x \<Rightarrow> Inl x
               | Inr (outcomes, p') \<Rightarrow>
                   Inr (JArr (map Some (map fst outcomes)) (arrayInherited env),
                        (errors @ concat (map snd outcomes), p')))"
    by (simp only: collectAll_run collectAll_List) (simp split: sum.splits)
next
  fix outcomes p'
  assume io: "itemOutcomes env (forEachItems env v) itemType path p = Inr (outcomes, p')"
  then show "length outcomes = length (forEachItems env v)"
    by (rule itemOutcomes_length)
  from io show "\<exists>ps. length ps = Suc (length (forEachItems env v)) \<and> ps ! 0 = p
                        \<and> ps ! length (forEachItems env v) = p'
                        \<and> (\<forall>i < length (forEachItems env v).
                              collectAll env (snd (forEachItems env v ! i)) itemType
                                  (addPath path (Index (fst (forEachItems env v ! i)))) (ps ! i)
                                = Inr (outcomes ! i, ps ! Suc i))"
    by (rule itemOutcomes_states)
next
  assume "\<not> isCollection env v"
  with assms show "coerceInputValueImpl env onError v (GraphQLList itemType) path s =
              (case coerceInputValueImpl env onError v itemType path s of
                 Inl x \<Rightarrow> Inl x
               | Inr (coercedItem, s') \<Rightarrow> Inr (JArr [Some coercedItem] (arrayInherited env), s'))"
    by simp
qed

theorem list_handling_counterexample:
  "\<not> isCollection testEnv JNull
   \<and> coerceInputValueImpl testEnv collectErrors JNull (GraphQLList GraphQLInt) None ([], ())
       = Inr (JNull, ([], ()))
   \<and> coerceInputValueImpl testEnv collectErrors JNull GraphQLInt None ([], ()) = Inr (JNull, ([], ()))
   \<and> JNull \<noteq> JArr [Some JNull] arrayPrototype"
  by (simp add: isNullish_def GraphQLInt_def)

theorem list_handling_witness:
  "coerceInputValueImpl testEnv collectErrors
       (JArr [Some (JNum 1), Some JNull, Some (JNum 3)] arrayPrototype)
       (GraphQLList (GraphQLNonNull GraphQLInt)) None ([], ())
     = Inr (JArr [Some (JNum 1), Some JUndefined, Some (JNum 3)] arrayPrototype,
            ([([Index 1], JNull,
               GraphQLError (''Expected non-nullable type '' @ quoted ''Int!'' @ '' not to be null.'')
                 None)], ()))
   \<and> coerceInputValueImpl testEnv collectErrors
       (JArr [Some (JNum 1), None, Some (JStr ''x'')] arrayPrototype)
       (GraphQLList (GraphQLNonNull GraphQLInt)) None ([], ())
     = Inr (JArr [Some (JNum 1), Some JUndefined] arrayPrototype,
            ([([Index 2], JStr ''x'',
               GraphQLError (''Expected type '' @ quoted ''Int'' @ ''. not an integer'')
                 (Some (Error ''not an integer'')))], ()))
   \<and> coerceInputValueImpl testEnv collectErrors (JNum 7) (GraphQLList GraphQLInt) None ([], ())
     = Inr (JArr [Some (JNum 7)] arrayPrototype, ([], ()))"
proof -
  let ?env = "testEnv :: (unit, jserror) env"
  let ?v = "JArr [Some (JNum 1), Some JNull, Some (JNum 3)] arrayPrototype"
  let ?w = "JArr [Some (JNum 1), None, Some (JStr ''x'')] arrayPrototype"
  let ?t = "GraphQLNonNull GraphQLInt :: unit gtype"
  have h: "\<not> isNullish ?v" "\<not> isNullish ?w" "\<not> isNullish (JNum 7)"
    by (simp_all add: isNullish_def)
  have c: "isCollection ?env ?v" "isCollection ?env ?w" "\<not> isCollection ?env (JNum 7)"
    by simp_all
  note t1 = list_handling [OF h(1), where env = ?env and itemType = ?t and path = None
      and errors = "[]" and p = "()", THEN conjunct1, rule_format, OF c(1), THEN conjunct1]
  note t2 = list_handling [OF h(2), where env = ?env and itemType = ?t and path = None
      and errors = "[]" and p = "()", THEN conjunct1, rule_format, OF c(2), THEN conjunct1]
  note t3 = list_handling [OF h(3), where env = ?env and itemType = GraphQLInt and path = None
      and onError = collectErrors and s = "([], ())", THEN conjunct2, rule_format, OF c(3)]
  have o1: "itemOutcomes ?env (forEachItems ?env ?v) ?t None () =
      Inr ([(JNum 1, []),
            (JUndefined, [([Index 1], JNull,
               GraphQLError (''Expected non-nullable type '' @ quoted ''Int!'' @ '' not to be null.'')
                 None)]),
            (JNum 3, [])], ())"
    by (simp add: enumerate_eq_zip upt_rec collectAll_NonNull collectAll_Scalar nonNullMessage_def
          GraphQLInt_def parseInt_def isNullish_def pathToArray_def addPath_def)
  have o2: "itemOutcomes ?env (forEachItems ?env ?w) ?t None () =
      Inr ([(JNum 1, []),
            (JUndefined, [([Index 2], JStr ''x'',
               GraphQLError (''Expected type '' @ quoted ''Int'' @ ''. not an integer'')
                 (Some (Error ''not an integer'')))])], ())"
    by (simp add: enumerate_eq_zip upt_rec collectAll_NonNull collectAll_Scalar
          parseErrorMessage_def GraphQLInt_def parseInt_def isNullish_def pathToArray_def
          addPath_def)
  have 1: "coerceInputValueImpl ?env collectErrors ?v (GraphQLList ?t) None ([], ())
     = Inr (JArr [Some (JNum 1), Some JUndefined, Some (JNum 3)] arrayPrototype,
            ([([Index 1], JNull,
               GraphQLError (''Expected non-nullable type '' @ quoted ''Int!'' @ '' not to be null.'')
                 None)], ()))"
    by (simp only: t1 o1) simp
  have 2: "coerceInputValueImpl ?env collectErrors ?w (GraphQLList ?t) None ([], ())
     = Inr (JArr [Some (JNum 1), Some JUndefined] arrayPrototype,
            ([([Index 2], JStr ''x'',
               GraphQLError (''Expected type '' @ quoted ''Int'' @ ''. not an integer'')
                 (Some (Error ''not an integer'')))], ()))"
    by (simp only: t2 o2) simp
  have 3: "coerceInputValueImpl ?env collectErrors (JNum 7) (GraphQLList GraphQLInt) None ([], ())
     = Inr (JArr [Some (JNum 7)] arrayPrototype, ([], ()))"
    by (subst t3) (simp add: GraphQLInt_def parseInt_def isNullish_def)
  from 1 2 3 show ?thesis by (intro conjI)
qed

subsection \<open>Scalar types\<close>

text \<open>
  Claim C4, amended: the claim holds for every value that is neither \<open>null\<close> nor
  \<open>undefined\<close> (for such a value \<open>parseValue\<close> is not called and \<open>null\<close> is
  returned, as the counterexample below shows, where the scalar counts its calls). For
  every scalar type and every other value, the coercion calls \<open>parseValue\<close> once, at
  the value and in the current state of the scalars, and the state that this one call
  leaves is the state that the callback receives and the state of the result. If the
  call raises an error of the system's own kind, that error is passed to \<open>onError\<close>
  unchanged; if it raises another error, \<open>onError\<close> receives a new error whose message
  is ``Expected type "name". '' followed by the message of the raised error and whose
  \<open>originalError\<close> is the raised error; if it returns \<open>undefined\<close>, \<open>onError\<close>
  receives the error ``Expected type "name".''; in these three cases the result is
  \<open>undefined\<close>. Otherwise the parsed value is returned and the callback is not called;
  a parsed \<open>null\<close> is such a value.
\<close>
theorem scalar_handling:
  assumes "\<not> isNullish v"
  shows "coerceInputValueImpl env onError v (GraphQLScalarType typeName parseValue) path (s, p) =
     (case parseValue v p of
        (Throws error, p') \<Rightarrow>
          returning
            (onError (pathToArray path) v
               (if isGraphQLError error then error
                else GraphQLError (''Expected type '' @ quoted typeName @ ''. '' @ message error)
                       (Some error)) (s, p'))
            JUndefined
      | (Returns parseResult, p') \<Rightarrow>
          (if parseResult = JUndefined
           then returning
                  (onError (pathToArray path) v
                     (GraphQLError (''Expected type '' @ quoted typeName @ ''.'') None) (s, p'))
                  JUndefined
           else Inr (parseResult, (s, p'))))"
  using assms
  by (simp add: returning_def parseErrorMessage_def expectedTypeMessage_def
        split: parse_result.splits sum.splits prod.splits)

theorem scalar_handling_counterexample:
  "coerceInputValueImpl testEnv collectErrors JNull (GraphQLScalarType ''S'' parseCounting) None
       ([], 0)
     = Inr (JNull, ([], 0))
   \<and> parseCounting JNull 0 = (Throws (Error ''not a number''), 1)"
  by (simp add: isNullish_def parseCounting_def)

theorem scalar_handling_witness:
  "coerceInputValueImpl testEnv collectErrors (JObj [] objectPrototype)
       (GraphQLScalarType ''S'' parseCounting) None ([], 0)
     = Inr (JUndefined, ([([], JObj [] objectPrototype,
          GraphQLError (''Expected type '' @ quoted ''S'' @ ''. not a number'')
            (Some (Error ''not a number'')))], 1))
   \<and> coerceInputValueImpl testEnv collectErrors (JStr ''a'') (GraphQLScalarType ''S'' parseCounting)
       None ([], 0)
     = Inr (JUndefined, ([([], JStr ''a'', GraphQLError ''no strings'' None)], 1))
   \<and> coerceInputValueImpl testEnv collectErrors (JBool True) (GraphQLScalarType ''S'' parseCounting)
       None ([], 0)
     = Inr (JUndefined, ([([], JBool True, GraphQLError (''Expected type '' @ quoted ''S'' @ ''.'') None)], 1))
   \<and> coerceInputValueImpl testEnv collectErrors (JArr [] arrayPrototype)
       (GraphQLScalarType ''S'' parseCounting) None ([], 0)
     = Inr (JNull, ([], 1))
   \<and> coerceInputValueImpl testEnv collectErrors (JNum 2) (GraphQLScalarType ''S'' parseCounting)
       None ([], 0)
     = Inr (JNum 2, ([], 1))"
proof -
  have h: "\<not> isNullish (JObj [] objectPrototype)" "\<not> isNullish (JStr ''a'')"
    "\<not> isNullish (JBool True)" "\<not> isNullish (JArr [] arrayPrototype)" "\<not> isNullish (JNum 2)"
    by (simp_all add: isNullish_def)
  show ?thesis
    by (simp only: scalar_handling [OF h(1)] scalar_handling [OF h(2)] scalar_handling [OF h(3)]
          scalar_handling [OF h(4)] scalar_handling [OF h(5)])
       (simp add: parseCounting_def pathToArray_def returning_def)
qed

subsection \<open>Enum types\<close>




subsection \<open>The default callback\<close>

text \<open>
  Claim C6. When no callback is supplied, the coercion raises the first error that a
  caller who collects the errors would find, and returns the value of that caller when
  there is none: no partial result is returned and no later error is reported. The
  message of the raised error is the original message after ``Invalid value'', the
  rendering of the invalid value, the locator \<open> at "value..."\<close> when the path of the
  error is not empty, and a colon. The errors that the collecting caller finds are in
  the order of a depth-first walk: for an object-like value, those of the declared
  fields, field by field in declaration order, each field with the errors of the
  coercion of its value, and then the unknown-field errors in the order of the keys of
  the input value; for a collection, those of its elements, element by element.
\<close>
theorem default_fail_fast:
  assumes "coerceInputValue env v t (Some collectErrors) ([], p) = Inr (result, (errors, p'))"
  shows "coerceInputValue env v t None (s, p) =
           (case errors of
              [] \<Rightarrow> Inr (result, (s, p'))
            | (path, invalidValue, error) # rest \<Rightarrow>
                Inl (setMessage error
                       (''Invalid value '' @ inspect env invalidValue
                          @ (if path = [] then []
                             else '' at '' @ quoted (''value'' @ printPathArray env path))
                          @ '': '' @ message error)))
       \<and> (\<not> isNullish object \<and> isObjectLike env object \<longrightarrow>
            coerceInputValueImpl env collectErrors object (GraphQLInputObjectType typeName fieldDefs)
                objectPath ([], q) =
              (case fieldOutcomes env object objectPath fieldDefs q of
                 Inl x \<Rightarrow> Inl x
               | Inr ((entries, reports), q') \<Rightarrow>
                   Inr (setProperties env (JObj [] (objectInherited env)) entries,
                        (reports @ unknownFieldReports env object typeName fieldDefs objectPath, q'))))
       \<and> fieldOutcomes env object objectPath (f # rest) q =
            (case fieldOutcome env object objectPath f q of
               Inl x \<Rightarrow> Inl x
             | Inr ((entry, reports), q') \<Rightarrow>
                 (case fieldOutcomes env object objectPath rest q' of
                    Inl x \<Rightarrow> Inl x
                  | Inr ((entries, reports'), q'') \<Rightarrow>
                      Inr ((entry @ entries, reports @ reports'), q'')))
       \<and> (\<not> isNullish collection \<and> isCollection env collection \<longrightarrow>
            coerceInputValueImpl env collectErrors collection (GraphQLList itemType)
                collectionPath ([], q) =
              (case itemOutcomes env (forEachItems env collection) itemType collectionPath q of
                 Inl x \<Rightarrow> Inl x
               | Inr (outcomes, q') \<Rightarrow>
                   Inr (JArr (map Some (map fst outcomes)) (arrayInherited env),
                        (concat (map snd outcomes), q'))))"
proof (intro conjI impI)
  from assms have c: "collectAll env v t None p = Inr ((result, errors), p')"
    by (auto simp: coerceInputValue_def collectAll_def split: sum.splits)
  have "coerceInputValue env v t None (s, p) =
      (case reportAll (defaultOnError env) errors s of
         Inl x \<Rightarrow> Inl x
       | Inr s' \<Rightarrow> Inr (result, (s', p')))"
    unfolding coerceInputValue_def option.case
    by (rule coerceInputValueImpl_reportAll [OF c actsOn_defaultOnError])
  then show "coerceInputValue env v t None (s, p) =
           (case errors of
              [] \<Rightarrow> Inr (result, (s, p'))
            | (path, invalidValue, error) # rest \<Rightarrow>
                Inl (setMessage error
                       (''Invalid value '' @ inspect env invalidValue
                          @ (if path = [] then []
                             else '' at '' @ quoted (''value'' @ printPathArray env path))
                          @ '': '' @ message error)))"
    by (simp add: reportAll_defaultOnError defaultOnError_def Let_def split: list.splits)
next
  assume "\<not> isNullish object \<and> isObjectLike env object"
  then show "coerceInputValueImpl env collectErrors object (GraphQLInputObjectType typeName fieldDefs)
                objectPath ([], q) =
              (case fieldOutcomes env object objectPath fieldDefs q of
                 Inl x \<Rightarrow> Inl x
               | Inr ((entries, reports), q') \<Rightarrow>
                   Inr (setProperties env (JObj [] (objectInherited env)) entries,
                        (reports @ unknownFieldReports env object typeName fieldDefs objectPath, q')))"
    by (simp only: collectAll_run collectAll_InputObject) (simp split: sum.splits)
next
  show "fieldOutcomes env object objectPath (f # rest) q =
            (case fieldOutcome env object objectPath f q of
               Inl x \<Rightarrow> Inl x
             | Inr ((entry, reports), q') \<Rightarrow>
                 (case fieldOutcomes env object objectPath rest q' of
                    Inl x \<Rightarrow> Inl x
                  | Inr ((entries, reports'), q'') \<Rightarrow>
                      Inr ((entry @ entries, reports @ reports'), q'')))"
    by simp
next
  assume "\<not> isNullish collection \<and> isCollection env collection"
  then show "coerceInputValueImpl env collectErrors collection (GraphQLList itemType)
                collectionPath ([], q) =
              (case itemOutcomes env (forEachItems env collection) itemType collectionPath q of
                 Inl x \<Rightarrow> Inl x
               | Inr (outcomes, q') \<Rightarrow>
                   Inr (JArr (map Some (map fst outcomes)) (arrayInherited env),
                        (concat (map snd outcomes), q')))"
    by (simp only: collectAll_run collectAll_List) (simp split: sum.splits)
qed

theorem default_fail_fast_witness:
  "coerceInputValue testEnv (JObj [(''color'', JNum 2)] objectPrototype) taggedType None ((), ())
     = Inl (GraphQLError (''Invalid value [object Object]: Field '' @ quoted ''id''
              @ '' of required type '' @ quoted ''Int!'' @ '' was not provided.'') None)
   \<and> coerceInputValue testEnv (JObj [(''id'', JNum 1), (''zzz'', JNum 2)] objectPrototype)
         taggedType None ((), ())
     = Inl (GraphQLError (''Invalid value [object Object]: Field '' @ quoted ''zzz''
              @ '' is not defined by type '' @ quoted ''Tagged'' @ ''.'') None)
   \<and> coerceInputValue testEnv
         (JObj [(''zzz'', JNum 1), (''count'', JStr ''x''), (''id'', JNum 1)] objectPrototype)
         taggedType None ((), ())
     = Inl (GraphQLError (''Invalid value '' @ quoted ''x'' @ '' at '' @ quoted ''value.count''
              @ '': Expected type '' @ quoted ''Int'' @ ''. not an integer'')
              (Some (Error ''not an integer'')))
   \<and> coerceInputValue testEnv (JObj [(''id'', JNum 1)] objectPrototype) taggedType None ((), ())
     = Inr (JObj [(''id'', JNum 1), (''tag'', JStr ''PURPLE'')] objectPrototype, ((), ()))
   \<and> coerceInputValue testEnv (JArr [Some (JStr ''a''), Some JNull] arrayPrototype)
         (GraphQLList (GraphQLNonNull GraphQLInt)) None ((), ())
     = Inl (GraphQLError (''Invalid value '' @ quoted ''a'' @ '' at '' @ quoted ''value[0]''
              @ '': Expected type '' @ quoted ''Int'' @ ''. not an integer'')
              (Some (Error ''not an integer'')))
   \<and> coerceInputValueImpl testEnv collectErrors
         (JObj [(''zzz'', JNum 1), (''count'', JStr ''x''), (''id'', JNum 1)] objectPrototype)
         (GraphQLInputObjectType ''Tagged'' taggedFields) None ([], ())
     = Inr (JObj [(''id'', JNum 1), (''tag'', JStr ''PURPLE''), (''count'', JUndefined)]
              objectPrototype,
            ([([Key ''count''], JStr ''x'',
               GraphQLError (''Expected type '' @ quoted ''Int'' @ ''. not an integer'')
                 (Some (Error ''not an integer''))),
              ([], JObj [(''zzz'', JNum 1), (''count'', JStr ''x''), (''id'', JNum 1)] objectPrototype,
               GraphQLError (''Field '' @ quoted ''zzz'' @ '' is not defined by type ''
                  @ quoted ''Tagged'' @ ''.'') None)], ()))
   \<and> coerceInputValueImpl testEnv collectErrors (JArr [Some (JStr ''a''), Some JNull] arrayPrototype)
         (GraphQLList (GraphQLNonNull GraphQLInt)) None ([], ())
     = Inr (JArr [Some JUndefined, Some JUndefined] arrayPrototype,
            ([([Index 0], JStr ''a'',
               GraphQLError (''Expected type '' @ quoted ''Int'' @ ''. not an integer'')
                 (Some (Error ''not an integer''))),
              ([Index 1], JNull,
               GraphQLError (''Expected non-nullable type '' @ quoted ''Int!''
                  @ '' not to be null.'') None)], ()))"
proof -
  let ?env = "testEnv :: (unit, jserror) env"
  let ?a = "JObj [(''color'', JNum 2)] objectPrototype"
  let ?b = "JObj [(''id'', JNum 1), (''zzz'', JNum 2)] objectPrototype"
  let ?c = "JObj [(''zzz'', JNum 1), (''count'', JStr ''x''), (''id'', JNum 1)] objectPrototype"
  let ?d = "JObj [(''id'', JNum 1)] objectPrototype"
  let ?l = "JArr [Some (JStr ''a''), Some JNull] arrayPrototype"
  let ?t = "GraphQLNonNull GraphQLInt :: unit gtype"
  let ?pe = "GraphQLError (''Expected type '' @ quoted ''Int'' @ ''. not an integer'')
                 (Some (Error ''not an integer''))"
  let ?ue = "GraphQLError (''Field '' @ quoted ''zzz'' @ '' is not defined by type ''
                   @ quoted ''Tagged'' @ ''.'') None"
  let ?ne = "GraphQLError (''Expected non-nullable type '' @ quoted ''Int!''
                  @ '' not to be null.'') None"
  note defs = coerceInputValue_def taggedType_def taggedFields_def isNullish_def GraphQLInt_def
    parseInt_def lookupField_def getProp_def objectPrototype_def objectMembers_def objectKeys_def
    sampleSetProperty_def notProvidedMessage_def notDefinedMessage_def parseErrorMessage_def
    pathToArray_def addPath_def didYouMean_def suggestionList_def nonNullMessage_def
    enumerate_eq_zip upt_rec
  have a: "coerceInputValue ?env ?a taggedType (Some collectErrors) ([], ())
      = Inr (JObj [(''tag'', JStr ''PURPLE'')] objectPrototype,
             ([([], ?a, GraphQLError (''Field '' @ quoted ''id'' @ '' of required type ''
                   @ quoted ''Int!'' @ '' was not provided.'') None),
               ([], ?a, GraphQLError (''Field '' @ quoted ''color'' @ '' is not defined by type ''
                   @ quoted ''Tagged'' @ ''.'' @ '' Did you mean '' @ quoted ''count'' @ ''?'')
                   None)], ()))"
    by (simp add: defs)
  have b: "coerceInputValue ?env ?b taggedType (Some collectErrors) ([], ())
      = Inr (JObj [(''id'', JNum 1), (''tag'', JStr ''PURPLE'')] objectPrototype,
             ([([], ?b, ?ue)], ()))"
    by (simp add: defs)
  have c: "coerceInputValue ?env ?c taggedType (Some collectErrors) ([], ())
      = Inr (JObj [(''id'', JNum 1), (''tag'', JStr ''PURPLE''), (''count'', JUndefined)]
               objectPrototype,
             ([([Key ''count''], JStr ''x'', ?pe), ([], ?c, ?ue)], ()))"
    by (simp add: defs)
  have d: "coerceInputValue ?env ?d taggedType (Some collectErrors) ([], ())
      = Inr (JObj [(''id'', JNum 1), (''tag'', JStr ''PURPLE'')] objectPrototype, ([], ()))"
    by (simp add: defs)
  have l: "coerceInputValue ?env ?l (GraphQLList ?t) (Some collectErrors) ([], ())
      = Inr (JArr [Some JUndefined, Some JUndefined] arrayPrototype,
             ([([Index 0], JStr ''a'', ?pe), ([Index 1], JNull, ?ne)], ()))"
    by (simp add: defs)
  have ho: "\<not> isNullish ?c \<and> isObjectLike ?env ?c" and hl: "\<not> isNullish ?l \<and> isCollection ?env ?l"
    by (simp_all add: isNullish_def)
  note o = default_fail_fast [OF c, where object = ?c and typeName = "''Tagged''"
      and fieldDefs = taggedFields and objectPath = None and q = "()",
      THEN conjunct2, THEN conjunct1, rule_format, OF ho]
  note i = default_fail_fast [OF l, where collection = ?l and itemType = ?t
      and collectionPath = None and q = "()",
      THEN conjunct2, THEN conjunct2, THEN conjunct2, rule_format, OF hl]
  have fo: "fieldOutcomes ?env ?c None taggedFields () =
      Inr (([(''id'', JNum 1), (''tag'', JStr ''PURPLE''), (''count'', JUndefined)],
            [([Key ''count''], JStr ''x'', ?pe)]), ())"
    by (simp add: taggedFields_def fieldOutcome_def collectAll_Scalar collectAll_NonNull
          GraphQLInt_def parseInt_def isNullish_def pathToArray_def addPath_def
          parseErrorMessage_def colorType_def getProp_def objectPrototype_def objectMembers_def)
  have u: "unknownFieldReports ?env ?c ''Tagged'' taggedFields None = [([], ?c, ?ue)]"
    by (simp add: unknownFieldReports_def taggedFields_def lookupField_def objectKeys_def
          notDefinedMessage_def didYouMean_def suggestionList_def pathToArray_def)
  have io: "itemOutcomes ?env (forEachItems ?env ?l) ?t None () =
      Inr ([(JUndefined, [([Index 0], JStr ''a'', ?pe)]),
            (JUndefined, [([Index 1], JNull, ?ne)])], ())"
    by (simp add: enumerate_eq_zip upt_rec collectAll_NonNull collectAll_Scalar nonNullMessage_def
          parseErrorMessage_def GraphQLInt_def parseInt_def isNullish_def pathToArray_def
          addPath_def)
  have 1: "coerceInputValueImpl ?env collectErrors ?c (GraphQLInputObjectType ''Tagged'' taggedFields)
             None ([], ())
     = Inr (JObj [(''id'', JNum 1), (''tag'', JStr ''PURPLE''), (''count'', JUndefined)]
              objectPrototype,
            ([([Key ''count''], JStr ''x'', ?pe), ([], ?c, ?ue)], ()))"
    by (simp only: o fo u) (simp add: sampleSetProperty_def)
  have 2: "coerceInputValueImpl ?env collectErrors ?l (GraphQLList ?t) None ([], ())
     = Inr (JArr [Some JUndefined, Some JUndefined] arrayPrototype,
            ([([Index 0], JStr ''a'', ?pe), ([Index 1], JNull, ?ne)], ()))"
    by (simp only: i io) simp
  have 3: "coerceInputValue testEnv ?a taggedType None ((), ())
     = Inl (GraphQLError (''Invalid value [object Object]: Field '' @ quoted ''id''
              @ '' of required type '' @ quoted ''Int!'' @ '' was not provided.'') None)
   \<and> coerceInputValue testEnv ?b taggedType None ((), ())
     = Inl (GraphQLError (''Invalid value [object Object]: Field '' @ quoted ''zzz''
              @ '' is not defined by type '' @ quoted ''Tagged'' @ ''.'') None)
   \<and> coerceInputValue testEnv ?c taggedType None ((), ())
     = Inl (GraphQLError (''Invalid value '' @ quoted ''x'' @ '' at '' @ quoted ''value.count''
              @ '': Expected type '' @ quoted ''Int'' @ ''. not an integer'')
              (Some (Error ''not an integer'')))
   \<and> coerceInputValue testEnv ?d taggedType None ((), ())
     = Inr (JObj [(''id'', JNum 1), (''tag'', JStr ''PURPLE'')] objectPrototype, ((), ()))
   \<and> coerceInputValue testEnv ?l (GraphQLList ?t) None ((), ())
     = Inl (GraphQLError (''Invalid value '' @ quoted ''a'' @ '' at '' @ quoted ''value[0]''
              @ '': Expected type '' @ quoted ''Int'' @ ''. not an integer'')
              (Some (Error ''not an integer'')))"
    by (simp only: default_fail_fast [OF a, THEN conjunct1] default_fail_fast [OF b, THEN conjunct1]
          default_fail_fast [OF c, THEN conjunct1] default_fail_fast [OF d, THEN conjunct1]
          default_fail_fast [OF l, THEN conjunct1])
       (simp add: showNat.simps)
  from 1 2 3 show ?thesis by simp
qed

subsection \<open>Idempotence\<close>




text \<open>
  Three more inputs show that the other conditions of the amended claim are needed, each
  with idempotent leaves. A default that is not a name of the enum of its field is
  written as it is, and rejected when the output is coerced again.
\<close>

lemma default_breaks_idempotence:
  "coerceInputValueImpl testEnv collectErrors (JObj [] objectPrototype)
       (GraphQLInputObjectType ''T'' [Field ''tag'' tagType (JStr ''PURPLE'')]) None ([], ())
     = Inr (JObj [(''tag'', JStr ''PURPLE'')] objectPrototype, ([], ()))
   \<and> coerceInputValueImpl testEnv collectErrors (JObj [(''tag'', JStr ''PURPLE'')] objectPrototype)
       (GraphQLInputObjectType ''T'' [Field ''tag'' tagType (JStr ''PURPLE'')]) None ([], ())
     = Inr (JObj [(''tag'', JUndefined)] objectPrototype,
            ([([Key ''tag''], JStr ''PURPLE'',
               GraphQLError (''Expected type '' @ quoted ''Tag'' @ ''.'') None)], ()))"
  by (simp add: tagType_def isNullish_def getValue_def lookupField_def getProp_def
        objectPrototype_def objectMembers_def objectKeys_def sampleSetProperty_def toStr_def
        pathToArray_def addPath_def enumMessage_def expectedTypeMessage_def didYouMean_def
        suggestionList_def)

text \<open>
  The non-null case tests the input value, not the coerced one: an idempotent scalar
  that parses a string to \<open>null\<close> passes under a non-null wrapper, and its output is
  rejected when it is coerced again.
\<close>

lemma nonNull_breaks_idempotence:
  "coerceInputValueImpl testEnv collectErrors (JStr ''x'')
       (GraphQLNonNull (GraphQLScalarType ''S''
          (\<lambda>v p. (case v of JNum n \<Rightarrow> Returns (JNum n) | _ \<Rightarrow> Returns JNull, p)))) None ([], ())
     = Inr (JNull, ([], ()))
   \<and> (\<exists>error.
        coerceInputValueImpl testEnv collectErrors JNull
          (GraphQLNonNull (GraphQLScalarType ''S''
             (\<lambda>v p. (case v of JNum n \<Rightarrow> Returns (JNum n) | _ \<Rightarrow> Returns JNull, p)))) None ([], ())
        = Inr (JUndefined, ([([], JNull, error)], ())))"
  by (simp add: isNullish_def pathToArray_def)

text \<open>
  A field is read through the members that the input value inherits: an own property
  \<open>constructor\<close> that is \<open>undefined\<close> is an absent field, whose key is omitted, and
  the output, which inherits the member \<open>constructor\<close>, is rejected when it is coerced
  again.
\<close>

lemma inherited_breaks_idempotence:
  "coerceInputValueImpl testEnv collectErrors
       (JObj [(''constructor'', JUndefined)] objectPrototype)
       (GraphQLInputObjectType ''P'' [Field ''constructor'' GraphQLInt JUndefined]) None ([], ())
     = Inr (JObj [] objectPrototype, ([], ()))
   \<and> coerceInputValueImpl testEnv collectErrors (JObj [] objectPrototype)
       (GraphQLInputObjectType ''P'' [Field ''constructor'' GraphQLInt JUndefined]) None ([], ())
     = Inr (JObj [(''constructor'', JUndefined)] objectPrototype,
            ([([Key ''constructor''], JFun ''Object'',
               GraphQLError (''Expected type '' @ quoted ''Int'' @ ''. not an integer'')
                 (Some (Error ''not an integer'')))], ()))"
  by (simp add: GraphQLInt_def parseInt_def isNullish_def lookupField_def getProp_def
        objectPrototype_def objectMembers_def objectKeys_def sampleSetProperty_def
        pathToArray_def addPath_def parseErrorMessage_def Let_def)

end
